theory Spec2Isabelle
  imports Main "HOL-Library.Sublist"
begin

section \<open>Data model\<close>

text \<open>
  Documents as the store holds them (references are ObjectIds, here natural numbers) and
  as the code sees them after the \<open>pre(/^find/)\<close> hooks have populated the references.
  Only the fields that the modelled code reads or writes are kept. Times are milliseconds
  since the epoch (\<open>Date.now()\<close>); every request reads the clock once.
\<close>

type_synonym oid = nat

record permission =
  perm_id :: oid
  perm_name :: string

record role_doc =
  rd_id :: oid
  rd_name :: string
  rd_permissions :: "oid list"
  rd_level :: int
  rd_isSystemRole :: bool

text \<open>A role with its permissions populated (Role.js, \<open>pre(/^find/)\<close>).\<close>

record role =
  role_id :: oid
  role_name :: string
  role_permissions :: "permission list"
  role_level :: int
  role_isSystemRole :: bool

datatype status = Active | Inactive | Suspended

record user_doc =
  ud_id :: oid
  ud_email :: string
  ud_password :: string
  ud_role :: oid
  ud_additionalRoles :: "oid list"
  ud_status :: status
  ud_lastLogin :: "nat option"
  ud_loginAttempts :: nat
  ud_lockUntil :: "nat option"

text \<open>
  A user with \<open>role\<close> and \<open>additionalRoles\<close> populated (User.js, \<open>pre(/^find/)\<close>).
  A primary role whose document is gone populates to \<open>null\<close>; a missing additional
  role is dropped from the array.
\<close>

record user =
  uid :: oid
  email :: string
  password :: string
  role :: "role option"
  additionalRoles :: "role list"
  ustatus :: status
  lastLogin :: "nat option"
  loginAttempts :: nat
  lockUntil :: "nat option"

record blacklisted_token =
  bt_token :: string
  bt_userId :: oid
  bt_reason :: string
  bt_userAgent :: "string option"
  bt_ipAddress :: "string option"
  bt_expiresAt :: nat

text \<open>The claims a token carries: the signed payload plus \<open>iat\<close> and \<open>exp\<close> (seconds).\<close>

record payload =
  p_id :: oid
  p_email :: string
  p_role :: string
  p_permissions :: "string list"

record claims =
  c_id :: oid
  c_email :: string
  c_role :: string
  c_permissions :: "string list"
  c_iat :: nat
  c_exp :: nat

text \<open>Values of the free-form \<open>details\<close> of an audit record.\<close>

datatype jsval = Null | Str string | Num nat | Date nat | Oid oid | Strs "string list"
  | Payload claims

text \<open>
  An audit record as handed to \<open>AuditLog.create\<close>. \<open>userId\<close> may be \<open>null\<close> in what
  the callers pass; whether such a record is stored is decided by the schema's validation.
\<close>

record audit_log =
  al_userId :: "oid option"
  al_action :: string
  al_resource :: string
  al_resourceId :: "string option"
  al_details :: "(string \<times> jsval) list"
  al_ipAddress :: string
  al_userAgent :: string
  al_status :: string
  al_severity :: string

text \<open>
  The store: one list of documents per collection, in insertion order. \<open>auditStoreUp\<close>
  says whether a write to the audit collection reaches storage; the other collections
  are taken to be available.
\<close>

record world =
  Permissions :: "permission list"
  Roles :: "role_doc list"
  Users :: "user_doc list"
  BlacklistedTokens :: "blacklisted_token list"
  AuditLogs :: "audit_log list"
  auditStoreUp :: bool

text \<open>
  What the process is started with: the signing secret and the token horizon
  (\<open>config.jwt\<close>, here in seconds), the keyed hash of the token library and the
  password comparison of bcrypt, both opaque.
\<close>

record env =
  hmac :: "string \<Rightarrow> string \<Rightarrow> string"
  jwt_secret :: string
  jwt_expiresIn :: nat
  bcrypt_compare :: "string \<Rightarrow> string \<Rightarrow> bool"

text \<open>The part of an Express request the middleware and the controllers read and set.\<close>

record request =
  authorization :: "string option"
  ip :: "string option"
  remoteAddress :: "string option"
  userAgent :: "string option"
  originalUrl :: string
  req_user :: "user option"
  req_token :: "string option"

text \<open>Errors thrown by the code, by Mongoose and by the token library.\<close>

datatype error = TypeError | ValidationError | DuplicateKeyError string | MongoError
  | JsonWebTokenError | TokenExpiredError

text \<open>A message is a literal or a key handed to the translation function \<open>req.t\<close>.\<close>

datatype message = Text string | Key string

datatype required = One string | Many "string list"

datatype data = NoData | UserAndToken user string | UserDoc "user_doc option"

text \<open>
  A response is either written directly (\<open>res.status(s).json({status: 'error', message,
  code, required})\<close>) or through one of the helpers of \<open>utils/response\<close>, which are kept
  as constructors with their arguments.
\<close>

datatype response =
    Json nat message "string option" "required option"
  | APIResponse_error message nat
  | APIResponse_notFound message
  | APIResponse_success data message
  | APIResponse_deleted message

text \<open>
  How a middleware or a controller ends: it calls \<open>next()\<close>, sends a response, hands an
  error to \<open>next(error)\<close>, or throws outside any \<open>try\<close>.
\<close>

datatype outcome = Next request | Respond response | NextError error | Uncaught error

text \<open>The calls of \<open>protect\<close> to the ledger, the token library and the credential store.\<close>

datatype event = BlacklistLookup string | JwtVerify string | UserLookup oid

section \<open>JavaScript strings\<close>

definition startsWith :: "string \<Rightarrow> string \<Rightarrow> bool" where
  "startsWith s p = (take (length p) s = p)"

text \<open>\<open>s.split(c)\<close> for a separator of one character.\<close>

fun split_on :: "char \<Rightarrow> string \<Rightarrow> string list" where
  "split_on c [] = [[]]"
| "split_on c (x # xs) =
     (if x = c then [] # split_on c xs
      else (case split_on c xs of [] \<Rightarrow> [[x]] | y # ys \<Rightarrow> (x # y) # ys))"

text \<open>\<open>xs[i]\<close>, which is \<open>undefined\<close> out of range.\<close>

definition nth_opt :: "'a list \<Rightarrow> nat \<Rightarrow> 'a option" where
  "nth_opt xs i = (if i < length xs then Some (xs ! i) else None)"

text \<open>\<open>a || b\<close> on strings: \<open>undefined\<close>, \<open>null\<close> and the empty string are falsy.\<close>

definition or_else :: "string option \<Rightarrow> string \<Rightarrow> string" where
  "or_else a b = (case a of None \<Rightarrow> b | Some s \<Rightarrow> if s = [] then b else s)"

text \<open>
  A number in a template literal: its decimal digits. \<open>digit_char\<close> is only applied
  to numbers below 10.
\<close>

definition digit_char :: "nat \<Rightarrow> char" where
  "digit_char d = (''0123456789'' ! d)"

definition digit_val :: "char \<Rightarrow> nat" where
  "digit_val c = of_char c - 48"

definition is_digit :: "char \<Rightarrow> bool" where
  "is_digit c = (c \<in> set ''0123456789'')"

fun string_of_nat :: "nat \<Rightarrow> string" where
  "string_of_nat n =
     (if n < 10 then [digit_char n] else string_of_nat (n div 10) @ [digit_char (n mod 10)])"

declare string_of_nat.simps [simp del]

definition nat_of_string :: "string \<Rightarrow> nat" where
  "nat_of_string s = foldl (\<lambda>acc c. acc * 10 + digit_val c) 0 s"

lemma digit_val_digit_char: "d < 10 \<Longrightarrow> digit_val (digit_char d) = d"
proof -
  assume "d < 10"
  then have "d \<in> {0, 1, 2, 3, 4, 5, 6, 7, 8, 9}" by auto
  then show ?thesis by (auto simp: digit_val_def digit_char_def)
qed

lemma is_digit_digit_char: "d < 10 \<Longrightarrow> is_digit (digit_char d)"
proof -
  assume "d < 10"
  then have "d \<in> {0, 1, 2, 3, 4, 5, 6, 7, 8, 9}" by auto
  then show ?thesis by (auto simp: is_digit_def digit_char_def)
qed

lemma nat_of_string_snoc: "nat_of_string (s @ [c]) = nat_of_string s * 10 + digit_val c"
  by (simp add: nat_of_string_def)

lemma nat_of_string_of_nat: "nat_of_string (string_of_nat n) = n"
proof (induction n rule: string_of_nat.induct)
  case (1 n)
  show ?case
  proof (cases "n < 10")
    case True
    then show ?thesis
      by (simp add: string_of_nat.simps [of n] nat_of_string_def digit_val_digit_char)
  next
    case False
    with 1 show ?thesis
      by (simp add: string_of_nat.simps [of n] nat_of_string_snoc digit_val_digit_char)
  qed
qed

lemma digits_string_of_nat: "list_all is_digit (string_of_nat n)"
proof (induction n rule: string_of_nat.induct)
  case (1 n)
  show ?case
  proof (cases "n < 10")
    case True
    then show ?thesis by (simp add: string_of_nat.simps [of n] is_digit_digit_char)
  next
    case False
    with 1 show ?thesis by (simp add: string_of_nat.simps [of n] is_digit_digit_char)
  qed
qed

lemma string_of_nat_nonempty: "string_of_nat n \<noteq> []"
  by (subst string_of_nat.simps) simp


lemma string_of_nat_0: "string_of_nat 0 = ''0''"
  by (simp add: string_of_nat.simps digit_char_def)

lemma string_of_nat_1: "string_of_nat 1 = ''1''" "string_of_nat (Suc 0) = ''1''"
  by (simp_all add: string_of_nat.simps digit_char_def)

section \<open>Permission resolver (User.js)\<close>

text \<open>
  \<open>Set.prototype.add\<close> on a set kept in insertion order, which is the order
  \<open>Array.from\<close> returns.
\<close>

definition set_add :: "'a list \<Rightarrow> 'a \<Rightarrow> 'a list" where
  "set_add s x = (if x \<in> set s then s else s @ [x])"

text \<open>\<open>role.permissions.forEach(perm => permissions.add(perm.name))\<close>\<close>

definition add_role_permissions :: "string list \<Rightarrow> role \<Rightarrow> string list" where
  "add_role_permissions permissions r =
     foldl set_add permissions (map perm_name (role_permissions r))"

text \<open>
  What a role path of a user document holds: the role a find query has populated
  (User.js, \<open>pre(/^find/)\<close>), or the bare ObjectId it was given, as in the document that
  \<open>User.create\<close> returns (authController.js, line 44). An ObjectId has no \<open>permissions\<close>.
\<close>

datatype role_ref = Ref oid | Populated role

text \<open>
  The loop body of lines 86 to 90, and for the primary role lines 80 to 82: the guard
  \<open>role.permissions\<close> skips a path that is not populated.
\<close>

definition add_ref_permissions :: "string list \<Rightarrow> role_ref \<Rightarrow> string list" where
  "add_ref_permissions permissions r =
     (case r of
        Ref i \<Rightarrow> permissions
      | Populated role' \<Rightarrow> add_role_permissions permissions role')"

text \<open>
  The getter of the virtual \<open>allPermissions\<close> (User.js, lines 76 to 94) on a document
  whose \<open>role\<close> is \<open>role'\<close> (\<open>None\<close> for \<open>null\<close>) and whose \<open>additionalRoles\<close> are
  \<open>additionalRoles'\<close>.
\<close>

definition allPermissions_get :: "role_ref option \<Rightarrow> role_ref list \<Rightarrow> string list" where
  "allPermissions_get role' additionalRoles' =
     (let permissions = [];
          permissions = (case role' of
                           None \<Rightarrow> permissions
                         | Some r \<Rightarrow> add_ref_permissions permissions r);
          permissions = foldl add_ref_permissions permissions additionalRoles'
      in permissions)"

text \<open>\<open>allPermissions\<close> of a document returned by a find query: every path is populated.\<close>

definition allPermissions :: "user \<Rightarrow> string list" where
  "allPermissions this =
     allPermissions_get (map_option Populated (role this))
       (map Populated (additionalRoles this))"


definition hasPermission :: "user \<Rightarrow> string \<Rightarrow> bool" where
  "hasPermission this p = (p \<in> set (allPermissions this))"

definition hasAnyPermission :: "user \<Rightarrow> string list \<Rightarrow> bool" where
  "hasAnyPermission this ps = list_ex (\<lambda>perm. perm \<in> set (allPermissions this)) ps"

definition hasAllPermissions :: "user \<Rightarrow> string list \<Rightarrow> bool" where
  "hasAllPermissions this ps = list_all (\<lambda>perm. perm \<in> set (allPermissions this)) ps"





definition role_editor :: role where
  "role_editor = \<lparr>role_id = 2, role_name = ''editor'',
     role_permissions = [\<lparr>perm_id = 2, perm_name = ''content:create''\<rparr>,
                         \<lparr>perm_id = 1, perm_name = ''content:read''\<rparr>,
                         \<lparr>perm_id = 3, perm_name = ''content:update''\<rparr>,
                         \<lparr>perm_id = 4, perm_name = ''user:read''\<rparr>],
     role_level = 30, role_isSystemRole = False\<rparr>"


section \<open>Properties of the permission resolver\<close>









lemma foldl_add_ref_permissions_Populated:
  "foldl add_ref_permissions s (map Populated rs) = foldl add_role_permissions s rs"
  by (induction rs arbitrary: s) (simp_all add: add_ref_permissions_def)


lemma allPermissions_user:
  "allPermissions this =
     (let permissions = [];
          permissions = (case role this of
                           None \<Rightarrow> permissions
                         | Some r \<Rightarrow> add_role_permissions permissions r);
          permissions = foldl add_role_permissions permissions (additionalRoles this)
      in permissions)"
  by (cases "role this")
     (simp_all add: allPermissions_def allPermissions_get_def add_ref_permissions_def
        foldl_add_ref_permissions_Populated)





section \<open>Token codec\<close>

text \<open>
  Modelled from the spec: \<open>jwt.sign\<close>, \<open>jwt.verify\<close> and \<open>jwt.decode\<close> belong to the
  package \<open>jsonwebtoken\<close>, whose code is not part of the sources. Section 4.1 of the
  specification: issuing embeds the claims with issued-at and expiry and signs with the
  process-wide secret; verifying checks the signature and the expiry and tells an expired
  token from a malformed or wrongly signed one. The compact serialisation is replaced by
  a length-prefixed one over the same fields, followed by the keyed hash of the body.
\<close>

definition enc_nat :: "nat \<Rightarrow> string" where
  "enc_nat n = string_of_nat n @ ''.''"

definition enc_str :: "string \<Rightarrow> string" where
  "enc_str s = enc_nat (length s) @ s"

definition enc_strs :: "string list \<Rightarrow> string" where
  "enc_strs xs = enc_nat (length xs) @ concat (map enc_str xs)"

definition enc_claims :: "claims \<Rightarrow> string" where
  "enc_claims c = enc_nat (c_id c) @ enc_str (c_email c) @ enc_str (c_role c)
     @ enc_strs (c_permissions c) @ enc_nat (c_iat c) @ enc_nat (c_exp c)"

definition dec_nat :: "string \<Rightarrow> (nat \<times> string) option" where
  "dec_nat s =
     (let ds = takeWhile (\<lambda>c. c \<noteq> CHR ''.'') s;
          rest = dropWhile (\<lambda>c. c \<noteq> CHR ''.'') s
      in if ds = [] \<or> \<not> list_all is_digit ds \<or> rest = [] then None
         else Some (nat_of_string ds, tl rest))"

definition dec_str :: "string \<Rightarrow> (string \<times> string) option" where
  "dec_str s =
     (case dec_nat s of
        None \<Rightarrow> None
      | Some (n, r) \<Rightarrow> if length r < n then None else Some (take n r, drop n r))"

fun dec_n_strs :: "nat \<Rightarrow> string \<Rightarrow> (string list \<times> string) option" where
  "dec_n_strs 0 s = Some ([], s)"
| "dec_n_strs (Suc n) s =
     (case dec_str s of
        None \<Rightarrow> None
      | Some (x, r) \<Rightarrow>
          (case dec_n_strs n r of
             None \<Rightarrow> None
           | Some (xs, r') \<Rightarrow> Some (x # xs, r')))"

definition dec_strs :: "string \<Rightarrow> (string list \<times> string) option" where
  "dec_strs s = (case dec_nat s of None \<Rightarrow> None | Some (n, r) \<Rightarrow> dec_n_strs n r)"

definition dec_claims :: "string \<Rightarrow> claims option" where
  "dec_claims s =
     (case dec_nat s of None \<Rightarrow> None | Some (i, r1) \<Rightarrow>
      (case dec_str r1 of None \<Rightarrow> None | Some (e, r2) \<Rightarrow>
      (case dec_str r2 of None \<Rightarrow> None | Some (ro, r3) \<Rightarrow>
      (case dec_strs r3 of None \<Rightarrow> None | Some (ps, r4) \<Rightarrow>
      (case dec_nat r4 of None \<Rightarrow> None | Some (ia, r5) \<Rightarrow>
      (case dec_nat r5 of None \<Rightarrow> None | Some (ex, r6) \<Rightarrow>
         if r6 = [] then
           Some \<lparr>c_id = i, c_email = e, c_role = ro, c_permissions = ps,
                 c_iat = ia, c_exp = ex\<rparr>
         else None))))))"

text \<open>\<open>jwt.sign(payload, secret, {expiresIn})\<close> at the time \<open>now\<close>.\<close>

definition jwt_sign :: "env \<Rightarrow> nat \<Rightarrow> payload \<Rightarrow> string \<Rightarrow> string" where
  "jwt_sign env now p secret =
     (let iat = now div 1000;
          body = enc_claims \<lparr>c_id = p_id p, c_email = p_email p, c_role = p_role p,
                   c_permissions = p_permissions p, c_iat = iat,
                   c_exp = iat + jwt_expiresIn env\<rparr>
      in enc_str body @ hmac env secret body)"

text \<open>\<open>jwt.decode(token)\<close>: the claims without any check, \<open>null\<close> for a malformed token.\<close>

definition jwt_decode :: "string \<Rightarrow> claims option" where
  "jwt_decode token =
     (case dec_str token of None \<Rightarrow> None | Some (body, sig) \<Rightarrow> dec_claims body)"

text \<open>\<open>jwt.verify(token, secret)\<close> at the time \<open>now\<close>.\<close>

definition jwt_verify :: "env \<Rightarrow> nat \<Rightarrow> string \<Rightarrow> string \<Rightarrow> error + claims" where
  "jwt_verify env now token secret =
     (case dec_str token of
        None \<Rightarrow> Inl JsonWebTokenError
      | Some (body, sig) \<Rightarrow>
          (case dec_claims body of
             None \<Rightarrow> Inl JsonWebTokenError
           | Some decoded \<Rightarrow>
               if sig \<noteq> hmac env secret body then Inl JsonWebTokenError
               else if c_exp decoded \<le> now div 1000 then Inl TokenExpiredError
               else Inr decoded))"

lemma is_digit_not_dot: "is_digit c \<Longrightarrow> c \<noteq> CHR ''.''"
  by (auto simp: is_digit_def)

lemma dec_nat_enc_nat: "dec_nat (enc_nat n @ r) = Some (n, r)"
proof -
  have all: "\<forall>c \<in> set (string_of_nat n). c \<noteq> CHR ''.''"
    using digits_string_of_nat [of n] is_digit_not_dot by (auto simp: list_all_iff)
  have tw: "takeWhile (\<lambda>c. c \<noteq> CHR ''.'') (enc_nat n @ r) = string_of_nat n"
    using all by (simp add: enc_nat_def takeWhile_tail)
  have dw: "dropWhile (\<lambda>c. c \<noteq> CHR ''.'') (enc_nat n @ r) = CHR ''.'' # r"
    using all by (simp add: enc_nat_def dropWhile_append3)
  show ?thesis
    by (simp add: dec_nat_def tw dw string_of_nat_nonempty digits_string_of_nat
          nat_of_string_of_nat)
qed

lemma dec_str_enc_str: "dec_str (enc_str s @ r) = Some (s, r)"
  by (simp add: dec_str_def enc_str_def dec_nat_enc_nat)

lemma dec_n_strs_enc: "dec_n_strs (length xs) (concat (map enc_str xs) @ r) = Some (xs, r)"
  by (induction xs) (simp_all add: dec_str_enc_str)

lemma dec_strs_enc_strs: "dec_strs (enc_strs xs @ r) = Some (xs, r)"
  by (simp add: dec_strs_def enc_strs_def dec_nat_enc_nat dec_n_strs_enc)

lemma dec_claims_enc_claims: "dec_claims (enc_claims c) = Some c"
proof -
  have "dec_nat (enc_nat (c_exp c)) = Some (c_exp c, [])"
    using dec_nat_enc_nat [of "c_exp c" "[]"] by simp
  then show ?thesis
    by (simp add: dec_claims_def enc_claims_def dec_nat_enc_nat dec_str_enc_str
          dec_strs_enc_strs)
qed

lemma jwt_verify_sign:
  "jwt_verify env now' (jwt_sign env now p secret) secret =
     (if now div 1000 + jwt_expiresIn env \<le> now' div 1000 then Inl TokenExpiredError
      else Inr \<lparr>c_id = p_id p, c_email = p_email p, c_role = p_role p,
                c_permissions = p_permissions p, c_iat = now div 1000,
                c_exp = now div 1000 + jwt_expiresIn env\<rparr>)"
  by (simp add: jwt_verify_def jwt_sign_def Let_def dec_str_enc_str dec_claims_enc_claims)

lemma jwt_decode_sign:
  "jwt_decode (jwt_sign env now p secret) =
     Some \<lparr>c_id = p_id p, c_email = p_email p, c_role = p_role p,
            c_permissions = p_permissions p, c_iat = now div 1000,
            c_exp = now div 1000 + jwt_expiresIn env\<rparr>"
  by (simp add: jwt_decode_def jwt_sign_def Let_def dec_str_enc_str dec_claims_enc_claims)

section \<open>Store operations\<close>

text \<open>The first document that matches is the one an update or a delete touches.\<close>

fun update_first :: "('a \<Rightarrow> bool) \<Rightarrow> ('a \<Rightarrow> 'a) \<Rightarrow> 'a list \<Rightarrow> 'a list" where
  "update_first P f [] = []"
| "update_first P f (x # xs) = (if P x then f x # xs else x # update_first P f xs)"

fun remove_first :: "('a \<Rightarrow> bool) \<Rightarrow> 'a list \<Rightarrow> 'a list" where
  "remove_first P [] = []"
| "remove_first P (x # xs) = (if P x then xs else x # remove_first P xs)"

text \<open>Role.js, \<open>pre(/^find/)\<close>: the permission references that resolve, in order.\<close>

definition populate_role :: "world \<Rightarrow> role_doc \<Rightarrow> role" where
  "populate_role w d =
     \<lparr>role_id = rd_id d, role_name = rd_name d,
      role_permissions =
        List.map_filter (\<lambda>i. find (\<lambda>p. perm_id p = i) (Permissions w)) (rd_permissions d),
      role_level = rd_level d, role_isSystemRole = rd_isSystemRole d\<rparr>"

definition Role_findById :: "world \<Rightarrow> oid \<Rightarrow> role option" where
  "Role_findById w i = map_option (populate_role w) (find (\<lambda>d. rd_id d = i) (Roles w))"

text \<open>User.js, \<open>pre(/^find/)\<close>.\<close>

definition populate_user :: "world \<Rightarrow> user_doc \<Rightarrow> user" where
  "populate_user w d =
     \<lparr>uid = ud_id d, email = ud_email d, password = ud_password d,
      role = Role_findById w (ud_role d),
      additionalRoles = List.map_filter (Role_findById w) (ud_additionalRoles d),
      ustatus = ud_status d, lastLogin = ud_lastLogin d,
      loginAttempts = ud_loginAttempts d, lockUntil = ud_lockUntil d\<rparr>"

definition User_findById :: "world \<Rightarrow> oid \<Rightarrow> user option" where
  "User_findById w i = map_option (populate_user w) (find (\<lambda>d. ud_id d = i) (Users w))"

text \<open>\<open>User.findOne({ email })\<close>\<close>

definition User_findOne :: "world \<Rightarrow> string \<Rightarrow> user option" where
  "User_findOne w e = map_option (populate_user w) (find (\<lambda>d. ud_email d = e) (Users w))"

text \<open>\<open>this.updateOne(...)\<close> and \<open>user.save()\<close> on the document with the identifier \<open>i\<close>.\<close>

definition User_updateOne :: "world \<Rightarrow> oid \<Rightarrow> (user_doc \<Rightarrow> user_doc) \<Rightarrow> world" where
  "User_updateOne w i f = w\<lparr>Users := update_first (\<lambda>d. ud_id d = i) f (Users w)\<rparr>"

text \<open>\<open>User.countDocuments({ role: r })\<close>\<close>

definition User_countDocuments :: "world \<Rightarrow> oid \<Rightarrow> nat" where
  "User_countDocuments w r = length (filter (\<lambda>d. ud_role d = r) (Users w))"

definition Role_findByIdAndDelete :: "world \<Rightarrow> oid \<Rightarrow> world" where
  "Role_findByIdAndDelete w i = w\<lparr>Roles := remove_first (\<lambda>d. rd_id d = i) (Roles w)\<rparr>"

text \<open>\<open>BlacklistedToken.findOne({ token })\<close>\<close>

definition BlacklistedToken_findOne :: "world \<Rightarrow> string \<Rightarrow> blacklisted_token option" where
  "BlacklistedToken_findOne w token = find (\<lambda>b. bt_token b = token) (BlacklistedTokens w)"

text \<open>
  \<open>BlacklistedToken.create\<close> (BlacklistedToken.js): \<open>token\<close> is required and unique; a
  second document with the same token is refused by the unique index (error 11000).
\<close>

definition BlacklistedToken_create :: "world \<Rightarrow> blacklisted_token \<Rightarrow> error + world" where
  "BlacklistedToken_create w d =
     (if bt_token d = [] then Inl ValidationError
      else if bt_token d \<in> bt_token ` set (BlacklistedTokens w)
        then Inl (DuplicateKeyError ''token'')
      else Inr (w\<lparr>BlacklistedTokens := BlacklistedTokens w @ [d]\<rparr>))"

section \<open>Audit sink\<close>

text \<open>The schema of AuditLog.js: required fields and enumerations.\<close>

definition AuditLog_actions :: "string list" where
  "AuditLog_actions =
     [''login'', ''logout'', ''register'', ''password_change'', ''profile_update'',
      ''user_create'', ''user_update'', ''user_delete'', ''failed_login'',
      ''account_locked'', ''password_reset'', ''role_change'', ''status_change'',
      ''user_list_access'', ''user_profile_access'', ''user_stats_access'',
      ''access_denied'']"

definition AuditLog_validate :: "audit_log \<Rightarrow> bool" where
  "AuditLog_validate d =
     (al_userId d \<noteq> None
      \<and> al_action d \<in> set AuditLog_actions
      \<and> al_resource d \<in> set [''user'', ''auth'', ''system'']
      \<and> al_ipAddress d \<noteq> []
      \<and> al_userAgent d \<noteq> []
      \<and> al_status d \<in> set [''success'', ''failure'', ''warning'']
      \<and> al_severity d \<in> set [''low'', ''medium'', ''high'', ''critical''])"

definition AuditLog_create :: "world \<Rightarrow> audit_log \<Rightarrow> error + world" where
  "AuditLog_create w d =
     (if \<not> AuditLog_validate d then Inl ValidationError
      else if \<not> auditStoreUp w then Inl MongoError
      else Inr (w\<lparr>AuditLogs := AuditLogs w @ [d]\<rparr>))"

text \<open>\<open>details.resourceId || null\<close>\<close>

definition resourceId_of :: "(string \<times> jsval) list \<Rightarrow> string option" where
  "resourceId_of details =
     (case map_of details ''resourceId'' of
        Some (Str s) \<Rightarrow> if s = [] then None else Some s
      | _ \<Rightarrow> None)"

text \<open>
  \<open>createAuditLog\<close> (middlewares/auth, lines 8 to 24): the whole body is inside \<open>try\<close>,
  and the \<open>catch\<close> only writes to the console.
\<close>

definition createAuditLog ::
  "world \<Rightarrow> oid option \<Rightarrow> string \<Rightarrow> string \<Rightarrow> (string \<times> jsval) list \<Rightarrow> request
     \<Rightarrow> string \<Rightarrow> string \<Rightarrow> error + world" where
  "createAuditLog w userId action resource details req status' severity =
     (case AuditLog_create w
             \<lparr>al_userId = userId, al_action = action, al_resource = resource,
              al_resourceId = resourceId_of details, al_details = details,
              al_ipAddress = or_else (ip req) (or_else (remoteAddress req) ''unknown''),
              al_userAgent = or_else (userAgent req) ''unknown'',
              al_status = status', al_severity = severity\<rparr> of
        Inl error \<Rightarrow> Inr w
      | Inr w' \<Rightarrow> Inr w')"

section \<open>Methods of a user (User.js)\<close>

text \<open>The virtual \<open>isLocked\<close>: \<open>!!(this.lockUntil && this.lockUntil > Date.now())\<close>.\<close>

definition isLocked :: "user \<Rightarrow> nat \<Rightarrow> bool" where
  "isLocked this now = (case lockUntil this of None \<Rightarrow> False | Some l \<Rightarrow> now < l)"

text \<open>
  \<open>generateAuthToken\<close> (lines 127 to 138). \<open>this.role.name\<close> throws when the primary
  role did not populate.
\<close>

definition generateAuthToken :: "env \<Rightarrow> nat \<Rightarrow> user \<Rightarrow> error + string" where
  "generateAuthToken env now this =
     (case role this of
        None \<Rightarrow> Inl TypeError
      | Some r \<Rightarrow>
          Inr (jwt_sign env now
                 \<lparr>p_id = uid this, p_email = email this, p_role = role_name r,
                  p_permissions = allPermissions this\<rparr>
                 (jwt_secret env)))"

text \<open>
  \<open>incLoginAttempts\<close> (lines 156 to 174). The test reads the loaded document, the update
  is relative to the stored one.
\<close>

definition incLoginAttempts :: "world \<Rightarrow> nat \<Rightarrow> user \<Rightarrow> world" where
  "incLoginAttempts w now this =
     (let maxAttempts = 5;
          lockTime = 2 * 60 * 60 * 1000
      in if (case lockUntil this of None \<Rightarrow> False | Some l \<Rightarrow> l < now) then
           User_updateOne w (uid this)
             (\<lambda>d. d\<lparr>ud_lockUntil := None, ud_loginAttempts := 1\<rparr>)
         else if maxAttempts \<le> loginAttempts this + 1 \<and> \<not> isLocked this now then
           User_updateOne w (uid this)
             (\<lambda>d. d\<lparr>ud_loginAttempts := ud_loginAttempts d + 1,
                     ud_lockUntil := Some (now + lockTime)\<rparr>)
         else
           User_updateOne w (uid this)
             (\<lambda>d. d\<lparr>ud_loginAttempts := ud_loginAttempts d + 1\<rparr>))"

text \<open>
  \<open>resetLoginAttempts\<close> (lines 177 to 182). An unset counter reads as its default 0.
\<close>

definition resetLoginAttempts :: "world \<Rightarrow> nat \<Rightarrow> user \<Rightarrow> world" where
  "resetLoginAttempts w now this =
     User_updateOne w (uid this)
       (\<lambda>d. d\<lparr>ud_loginAttempts := 0, ud_lockUntil := None, ud_lastLogin := Some now\<rparr>)"

section \<open>Authorization gate (middlewares/auth)\<close>

definition unauthorized :: response where
  "unauthorized = Json 401 (Key ''errors.unauthorized'') None None"

text \<open>Lines 32 to 34: the second field of a header that starts with \<open>Bearer\<close>.\<close>

definition bearer_token :: "request \<Rightarrow> string option" where
  "bearer_token req =
     (case authorization req of
        None \<Rightarrow> None
      | Some h \<Rightarrow>
          if h \<noteq> [] \<and> startsWith h ''Bearer'' then nth_opt (split_on CHR '' '' h) 1
          else None)"

text \<open>The \<open>catch\<close> of \<open>protect\<close> (lines 118 to 142).\<close>

definition protect_catch :: "error \<Rightarrow> response" where
  "protect_catch error =
     (if error = TokenExpiredError then
        Json 401 (Text ''Token expired'') (Some ''TOKEN_EXPIRED'') None
      else if error = JsonWebTokenError then
        Json 401 (Text ''Invalid token'') (Some ''TOKEN_INVALID'') None
      else unauthorized)"

definition status_name :: "status \<Rightarrow> string" where
  "status_name s = (case s of Active \<Rightarrow> ''active'' | Inactive \<Rightarrow> ''inactive''
                    | Suspended \<Rightarrow> ''suspended'')"

definition date_or_null :: "nat option \<Rightarrow> jsval" where
  "date_or_null d = (case d of None \<Rightarrow> Null | Some t \<Rightarrow> Date t)"

definition str_or_null :: "string option \<Rightarrow> jsval" where
  "str_or_null x = (case x of None \<Rightarrow> Null | Some s \<Rightarrow> Str s)"

text \<open>
  \<open>protect\<close> (lines 27 to 143), in the order of the source: token from the header,
  blacklist lookup, \<open>jwt.verify\<close>, user lookup, status, lock. The third component lists
  the lookups and the verification in the order in which they were made.
\<close>

definition protect :: "env \<Rightarrow> nat \<Rightarrow> world \<Rightarrow> request \<Rightarrow> outcome \<times> world \<times> event list" where
  "protect env now w req =
     (case bearer_token req of
        None \<Rightarrow> (Respond unauthorized, w, [])
      | Some token \<Rightarrow>
          if token = [] then (Respond unauthorized, w, [])
          else
            (case BlacklistedToken_findOne w token of
               Some blacklistedToken \<Rightarrow>
                 (Respond (Json 401 (Text ''Token has been invalidated'')
                             (Some ''TOKEN_BLACKLISTED'') None),
                  w, [BlacklistLookup token])
             | None \<Rightarrow>
                 (case jwt_verify env now token (jwt_secret env) of
                    Inl error \<Rightarrow>
                      (Respond (protect_catch error), w,
                       [BlacklistLookup token, JwtVerify token])
                  | Inr decoded \<Rightarrow>
                      (let trace = [BlacklistLookup token, JwtVerify token,
                                    UserLookup (c_id decoded)]
                       in case User_findById w (c_id decoded) of
                            None \<Rightarrow>
                              (case createAuditLog w (Some (c_id decoded)) ''failed_login''
                                      ''auth''
                                      [(''reason'', Str ''user_not_found''),
                                       (''token_payload'', Payload decoded)]
                                      req ''failure'' ''high'' of
                                 Inl error \<Rightarrow> (Respond (protect_catch error), w, trace)
                               | Inr w' \<Rightarrow> (Respond unauthorized, w', trace))
                          | Some user \<Rightarrow>
                              if ustatus user \<noteq> Active then
                                (case createAuditLog w (Some (uid user)) ''failed_login''
                                        ''auth''
                                        [(''reason'', Str ''account_inactive''),
                                         (''status'', Str (status_name (ustatus user)))]
                                        req ''failure'' ''medium'' of
                                   Inl error \<Rightarrow> (Respond (protect_catch error), w, trace)
                                 | Inr w' \<Rightarrow> (Respond unauthorized, w', trace))
                              else if isLocked user now then
                                (case createAuditLog w (Some (uid user)) ''failed_login''
                                        ''auth''
                                        [(''reason'', Str ''account_locked''),
                                         (''lockUntil'', date_or_null (lockUntil user))]
                                        req ''failure'' ''medium'' of
                                   Inl error \<Rightarrow> (Respond (protect_catch error), w, trace)
                                 | Inr w' \<Rightarrow>
                                     (Respond (Json 423
                                        (Text ''Account temporarily locked due to too many failed login attempts'')
                                        (Some ''ACCOUNT_LOCKED'') None),
                                      w', trace))
                              else
                                (Next (req\<lparr>req_user := Some user,
                                            req_token := Some token\<rparr>),
                                 w, trace)))))"

text \<open>
  The permission middlewares (lines 146 to 234) are \<open>async\<close> functions without \<open>try\<close>:
  reading \<open>req.user\<close> where \<open>protect\<close> has not set it throws.
\<close>

definition forbidden :: "required \<Rightarrow> response" where
  "forbidden r = Json 403 (Key ''errors.forbidden'') (Some ''INSUFFICIENT_PERMISSIONS'') (Some r)"

definition requirePermission :: "string \<Rightarrow> world \<Rightarrow> request \<Rightarrow> outcome \<times> world" where
  "requirePermission permission' w req =
     (case req_user req of
        None \<Rightarrow> (Uncaught TypeError, w)
      | Some user \<Rightarrow>
          if \<not> hasPermission user permission' then
            (case createAuditLog w (Some (uid user)) ''access_denied'' ''auth''
                    [(''reason'', Str ''insufficient_permissions''),
                     (''required_permission'', Str permission'),
                     (''user_permissions'', Strs (allPermissions user)),
                     (''attempted_resource'', Str (originalUrl req))]
                    req ''failure'' ''high'' of
               Inl error \<Rightarrow> (Uncaught error, w)
             | Inr w' \<Rightarrow> (Respond (forbidden (One permission')), w'))
          else (Next req, w))"

definition requireAnyPermission :: "string list \<Rightarrow> world \<Rightarrow> request \<Rightarrow> outcome \<times> world" where
  "requireAnyPermission permissions w req =
     (case req_user req of
        None \<Rightarrow> (Uncaught TypeError, w)
      | Some user \<Rightarrow>
          if \<not> hasAnyPermission user permissions then
            (case createAuditLog w (Some (uid user)) ''access_denied'' ''auth''
                    [(''reason'', Str ''insufficient_permissions''),
                     (''required_permissions'', Strs permissions),
                     (''user_permissions'', Strs (allPermissions user)),
                     (''attempted_resource'', Str (originalUrl req))]
                    req ''failure'' ''high'' of
               Inl error \<Rightarrow> (Uncaught error, w)
             | Inr w' \<Rightarrow> (Respond (forbidden (Many permissions)), w'))
          else (Next req, w))"

definition requireAllPermissions :: "string list \<Rightarrow> world \<Rightarrow> request \<Rightarrow> outcome \<times> world" where
  "requireAllPermissions permissions w req =
     (case req_user req of
        None \<Rightarrow> (Uncaught TypeError, w)
      | Some user \<Rightarrow>
          if \<not> hasAllPermissions user permissions then
            (case createAuditLog w (Some (uid user)) ''access_denied'' ''auth''
                    [(''reason'', Str ''insufficient_permissions''),
                     (''required_permissions'', Strs permissions),
                     (''user_permissions'', Strs (allPermissions user)),
                     (''attempted_resource'', Str (originalUrl req))]
                    req ''failure'' ''high'' of
               Inl error \<Rightarrow> (Uncaught error, w)
             | Inr w' \<Rightarrow> (Respond (forbidden (Many permissions)), w'))
          else (Next req, w))"

text \<open>\<open>requireSuperAdmin\<close> (lines 267 to 290): \<open>req.user.role.level < 90\<close>.\<close>

definition requireSuperAdmin :: "world \<Rightarrow> request \<Rightarrow> outcome \<times> world" where
  "requireSuperAdmin w req =
     (case req_user req of
        None \<Rightarrow> (Uncaught TypeError, w)
      | Some user \<Rightarrow>
          (case role user of
             None \<Rightarrow> (Uncaught TypeError, w)
           | Some r \<Rightarrow>
               if role_level r < 90 then
                 (case createAuditLog w (Some (uid user)) ''access_denied'' ''auth''
                         [(''reason'', Str ''requires_super_admin''),
                          (''user_level'', Num (nat (role_level r))),
                          (''attempted_resource'', Str (originalUrl req))]
                         req ''failure'' ''critical'' of
                    Inl error \<Rightarrow> (Uncaught error, w)
                  | Inr w' \<Rightarrow>
                      (Respond (Json 403 (Text ''Super admin access required'')
                                  (Some ''REQUIRES_SUPER_ADMIN'') None),
                       w'))
               else (Next req, w)))"

section \<open>Controllers\<close>

text \<open>
  \<open>login\<close> (authController.js, lines 83 to 200) with the body \<open>{email, password}\<close>.
  Every statement is inside \<open>try\<close>; the \<open>catch\<close> is \<open>next(error)\<close>.
\<close>

definition login :: "env \<Rightarrow> nat \<Rightarrow> world \<Rightarrow> request \<Rightarrow> string \<Rightarrow> string \<Rightarrow> outcome \<times> world" where
  "login env now w req email' password' =
     (case User_findOne w email' of
        None \<Rightarrow>
          (case createAuditLog w None ''failed_login'' ''auth''
                  [(''email'', Str email'), (''reason'', Str ''user_not_found'')]
                  req ''failure'' ''medium'' of
             Inl error \<Rightarrow> (NextError error, w)
           | Inr w' \<Rightarrow>
               (Respond (APIResponse_error (Key ''auth.invalidCredentials'') 401), w'))
      | Some user \<Rightarrow>
          if isLocked user now then
            (case createAuditLog w (Some (uid user)) ''failed_login'' ''auth''
                    [(''reason'', Str ''account_locked''),
                     (''lockUntil'', date_or_null (lockUntil user))]
                    req ''failure'' ''medium'' of
               Inl error \<Rightarrow> (NextError error, w)
             | Inr w' \<Rightarrow> (Respond (APIResponse_error (Key ''user.accountLocked'') 423), w'))
          else if ustatus user \<noteq> Active then
            (case createAuditLog w (Some (uid user)) ''failed_login'' ''auth''
                    [(''reason'', Str ''account_inactive''),
                     (''status'', Str (status_name (ustatus user)))]
                    req ''failure'' ''medium'' of
               Inl error \<Rightarrow> (NextError error, w)
             | Inr w' \<Rightarrow> (Respond (APIResponse_error (Key ''errors.unauthorized'') 401), w'))
          else if \<not> bcrypt_compare env password' (password user) then
            (let w1 = incLoginAttempts w now user
             in case createAuditLog w1 (Some (uid user)) ''failed_login'' ''auth''
                       [(''reason'', Str ''invalid_password''),
                        (''attempts'', Num (loginAttempts user + 1))]
                       req ''failure''
                       (if 3 \<le> loginAttempts user then ''high'' else ''medium'') of
                  Inl error \<Rightarrow> (NextError error, w1)
                | Inr w2 \<Rightarrow>
                    (Respond (APIResponse_error (Key ''auth.invalidCredentials'') 401), w2))
          else
            (let w1 = resetLoginAttempts w now user
             in case generateAuthToken env now user of
                  Inl error \<Rightarrow> (NextError error, w1)
                | Inr token \<Rightarrow>
                    (case createAuditLog w1 (Some (uid user)) ''login'' ''auth''
                            [(''login_method'', Str ''password''),
                             (''user_agent'', str_or_null (userAgent req)),
                             (''last_login'', date_or_null (lastLogin user))]
                            req ''success'' ''low'' of
                       Inl error \<Rightarrow> (NextError error, w1)
                     | Inr w2 \<Rightarrow>
                         (Respond (APIResponse_success
                                     (UserAndToken (user\<lparr>password := []\<rparr>) token)
                                     (Key ''auth.loginSuccess'')),
                          w2))))"

text \<open>
  \<open>logout\<close> (authController.js, lines 203 to 240). \<open>jwt.decode\<close> gives \<open>null\<close> for a
  token it cannot read, and \<open>decoded.exp\<close> then throws.
\<close>

definition logout :: "world \<Rightarrow> request \<Rightarrow> outcome \<times> world" where
  "logout w req =
     (case req_token req of
        None \<Rightarrow> (NextError TypeError, w)
      | Some token \<Rightarrow>
          (case jwt_decode token of
             None \<Rightarrow> (NextError TypeError, w)
           | Some decoded \<Rightarrow>
               (let expiresAt = c_exp decoded * 1000
                in case req_user req of
                     None \<Rightarrow> (NextError TypeError, w)
                   | Some user \<Rightarrow>
                       (case BlacklistedToken_create w
                               \<lparr>bt_token = token, bt_userId = uid user,
                                bt_reason = ''logout'', bt_userAgent = userAgent req,
                                bt_ipAddress =
                                  (case ip req of
                                     None \<Rightarrow> remoteAddress req
                                   | Some a \<Rightarrow> if a = [] then remoteAddress req else Some a),
                                bt_expiresAt = expiresAt\<rparr> of
                          Inl error \<Rightarrow> (NextError error, w)
                        | Inr w1 \<Rightarrow>
                            (case createAuditLog w1 (Some (uid user)) ''logout'' ''auth''
                                    [(''logout_method'', Str ''manual''),
                                     (''token_expires_at'', Date expiresAt)]
                                    req ''success'' ''low'' of
                               Inl error \<Rightarrow> (NextError error, w1)
                             | Inr w2 \<Rightarrow>
                                 (Respond (APIResponse_success NoData
                                             (Key ''auth.logoutSuccess'')),
                                  w2))))))"

text \<open>
  \<open>deleteRole\<close> (roleController.js, lines 203 to 244) for \<open>req.params.id\<close> a well-formed
  identifier.
\<close>

definition deleteRole :: "world \<Rightarrow> request \<Rightarrow> oid \<Rightarrow> outcome \<times> world" where
  "deleteRole w req id' =
     (case Role_findById w id' of
        None \<Rightarrow> (Respond (APIResponse_notFound (Text ''Role not found'')), w)
      | Some role' \<Rightarrow>
          if role_isSystemRole role' then
            (Respond (APIResponse_error (Text ''System roles cannot be deleted'') 400), w)
          else
            (let userCount = User_countDocuments w (role_id role')
             in if 0 < userCount then
                  (Respond (APIResponse_error
                              (Text (''Cannot delete role. '' @ string_of_nat userCount
                                     @ '' users are assigned to this role''))
                              400),
                   w)
                else
                  (let w1 = Role_findByIdAndDelete w id'
                   in case req_user req of
                        None \<Rightarrow> (NextError TypeError, w1)
                      | Some user \<Rightarrow>
                          (case createAuditLog w1 (Some (uid user)) ''role_delete'' ''system''
                                  [(''deleted_role'', Oid (role_id role')),
                                   (''name'', Str (role_name role')),
                                   (''permission_count'',
                                    Num (length (role_permissions role')))]
                                  req ''success'' ''high'' of
                             Inl error \<Rightarrow> (NextError error, w1)
                           | Inr w2 \<Rightarrow>
                               (Respond (APIResponse_deleted
                                           (Text ''Role deleted successfully'')),
                                w2)))))"

text \<open>
  \<open>assignRole\<close> (userController.js, lines 219 to 260) for the user \<open>req.params.id\<close> and
  the body \<open>{roleId}\<close>.
\<close>

definition assignRole :: "world \<Rightarrow> request \<Rightarrow> oid \<Rightarrow> oid \<Rightarrow> outcome \<times> world" where
  "assignRole w req id' roleId =
     (case User_findById w id' of
        None \<Rightarrow> (Respond (APIResponse_notFound (Key ''user.notFound'')), w)
      | Some user \<Rightarrow>
          (case Role_findById w roleId of
             None \<Rightarrow> (Respond (APIResponse_error (Text ''Invalid role ID'') 400), w)
           | Some role' \<Rightarrow>
               (let oldRole = role user;
                    w1 = User_updateOne w (uid user) (\<lambda>d. d\<lparr>ud_role := roleId\<rparr>)
                in case (req_user req, oldRole) of
                     (Some ru, Some old) \<Rightarrow>
                       (case createAuditLog w1 (Some (uid ru)) ''user_role_change'' ''user''
                               [(''user_id'', Oid (uid user)),
                                (''user_email'', Str (email user)),
                                (''old_role'', Str (role_name old)),
                                (''new_role'', Str (role_name role')),
                                (''assigned_by'', Oid (uid ru))]
                               req ''success'' ''high'' of
                          Inl error \<Rightarrow> (NextError error, w1)
                        | Inr w2 \<Rightarrow>
                            (Respond (APIResponse_success
                                        (UserDoc (find (\<lambda>d. ud_id d = uid user) (Users w2)))
                                        (Text ''Role assigned successfully'')),
                             w2))
                   | _ \<Rightarrow> (NextError TypeError, w1))))"

section \<open>An example installation\<close>

text \<open>
  Five permissions, four roles and five users: user 7 is the principal of the scenario
  above, user 8 an editor, users 9 and 10 hold \<open>admin\<close> and \<open>auditor\<close> as additional
  roles only, user 6 is the administrator.
\<close>

definition env0 :: env where
  "env0 = \<lparr>hmac = (\<lambda>key body. rev key), jwt_secret = ''s3cret'', jwt_expiresIn = 60,
            bcrypt_compare = (\<lambda>candidate hash. hash = ''$'' @ candidate)\<rparr>"

definition mk_user :: "oid \<Rightarrow> string \<Rightarrow> oid \<Rightarrow> oid list \<Rightarrow> user_doc" where
  "mk_user i e r ars =
     \<lparr>ud_id = i, ud_email = e, ud_password = ''$pw'', ud_role = r, ud_additionalRoles = ars,
      ud_status = Active, ud_lastLogin = None, ud_loginAttempts = 0, ud_lockUntil = None\<rparr>"

definition world0 :: world where
  "world0 =
     \<lparr>Permissions =
        [\<lparr>perm_id = 1, perm_name = ''content:read''\<rparr>,
         \<lparr>perm_id = 2, perm_name = ''content:create''\<rparr>,
         \<lparr>perm_id = 3, perm_name = ''content:update''\<rparr>,
         \<lparr>perm_id = 4, perm_name = ''user:read''\<rparr>,
         \<lparr>perm_id = 5, perm_name = ''audit:read''\<rparr>],
      Roles =
        [\<lparr>rd_id = 1, rd_name = ''user'', rd_permissions = [1], rd_level = 10,
          rd_isSystemRole = True\<rparr>,
         \<lparr>rd_id = 2, rd_name = ''editor'', rd_permissions = [2, 1, 3, 4], rd_level = 30,
          rd_isSystemRole = False\<rparr>,
         \<lparr>rd_id = 3, rd_name = ''auditor'', rd_permissions = [1, 5], rd_level = 30,
          rd_isSystemRole = False\<rparr>,
         \<lparr>rd_id = 4, rd_name = ''admin'', rd_permissions = [1, 2, 3, 4, 5], rd_level = 100,
          rd_isSystemRole = True\<rparr>],
      Users =
        [mk_user 6 ''root@example.com'' 4 [],
         mk_user 7 ''p@example.com'' 1 [2],
         mk_user 8 ''e@example.com'' 2 [],
         mk_user 9 ''a@example.com'' 1 [4],
         mk_user 10 ''b@example.com'' 1 [3]],
      BlacklistedTokens = [],
      AuditLogs = [],
      auditStoreUp = True\<rparr>"

definition request0 :: request where
  "request0 = \<lparr>authorization = None, ip = Some ''10.0.0.1'', remoteAddress = None,
                userAgent = Some ''curl'', originalUrl = ''/api'', req_user = None,
                req_token = None\<rparr>"

lemmas store_eval = User_findById_def User_findOne_def Role_findById_def populate_user_def
  populate_role_def BlacklistedToken_findOne_def User_countDocuments_def mk_user_def


section \<open>Effective permissions of a stored principal\<close>









section \<open>The audit sink never fails its caller\<close>

definition audit_entry ::
  "oid option \<Rightarrow> string \<Rightarrow> string \<Rightarrow> (string \<times> jsval) list \<Rightarrow> request \<Rightarrow> string \<Rightarrow> string
     \<Rightarrow> audit_log" where
  "audit_entry userId action resource details req status' severity =
     \<lparr>al_userId = userId, al_action = action, al_resource = resource,
      al_resourceId = resourceId_of details, al_details = details,
      al_ipAddress = or_else (ip req) (or_else (remoteAddress req) ''unknown''),
      al_userAgent = or_else (userAgent req) ''unknown'',
      al_status = status', al_severity = severity\<rparr>"

definition audited :: "world \<Rightarrow> audit_log \<Rightarrow> world" where
  "audited w doc =
     (if AuditLog_validate doc \<and> auditStoreUp w
      then w\<lparr>AuditLogs := AuditLogs w @ [doc]\<rparr> else w)"

definition without_audit :: "world \<Rightarrow> world" where
  "without_audit w = w\<lparr>AuditLogs := [], auditStoreUp := True\<rparr>"

lemma createAuditLog_audited:
  "createAuditLog w userId action resource details req st severity =
     Inr (audited w (audit_entry userId action resource details req st severity))"
  by (simp add: createAuditLog_def AuditLog_create_def audited_def audit_entry_def)

lemma audited_fields:
  "Permissions (audited w doc) = Permissions w"
  "Roles (audited w doc) = Roles w"
  "Users (audited w doc) = Users w"
  "BlacklistedTokens (audited w doc) = BlacklistedTokens w"
  "auditStoreUp (audited w doc) = auditStoreUp w"
  by (simp_all add: audited_def)

lemma without_audit_audited: "without_audit (audited w doc) = without_audit w"
  by (simp add: audited_def without_audit_def)

lemma without_audit_auditStoreUp: "without_audit (w\<lparr>auditStoreUp := b\<rparr>) = without_audit w"
  by (simp add: without_audit_def)

lemma populate_role_cong:
  "Permissions w' = Permissions w \<Longrightarrow> populate_role w' = populate_role w"
  by (simp add: populate_role_def fun_eq_iff)

lemma Role_findById_cong:
  assumes "Permissions w' = Permissions w" and "Roles w' = Roles w"
  shows "Role_findById w' = Role_findById w"
  by (rule ext) (simp add: Role_findById_def populate_role_cong [OF assms(1)] assms(2))

lemma populate_user_cong:
  assumes "Permissions w' = Permissions w" and "Roles w' = Roles w"
  shows "populate_user w' = populate_user w"
  by (rule ext) (simp add: populate_user_def Role_findById_cong [OF assms])

lemma User_findById_cong:
  assumes "Permissions w' = Permissions w" and "Roles w' = Roles w" and "Users w' = Users w"
  shows "User_findById w' = User_findById w"
  by (rule ext) (simp add: User_findById_def populate_user_cong [OF assms(1,2)] assms(3))

lemma User_findOne_cong:
  assumes "Permissions w' = Permissions w" and "Roles w' = Roles w" and "Users w' = Users w"
  shows "User_findOne w' = User_findOne w"
  by (rule ext) (simp add: User_findOne_def populate_user_cong [OF assms(1,2)] assms(3))

lemma reads_auditStoreUp:
  "Role_findById (w\<lparr>auditStoreUp := b\<rparr>) = Role_findById w"
  "User_findById (w\<lparr>auditStoreUp := b\<rparr>) = User_findById w"
  "User_findOne (w\<lparr>auditStoreUp := b\<rparr>) = User_findOne w"
  "BlacklistedToken_findOne (w\<lparr>auditStoreUp := b\<rparr>) = BlacklistedToken_findOne w"
  "User_countDocuments (w\<lparr>auditStoreUp := b\<rparr>) = User_countDocuments w"
proof -
  show "Role_findById (w\<lparr>auditStoreUp := b\<rparr>) = Role_findById w"
    by (rule Role_findById_cong) simp_all
  show "User_findById (w\<lparr>auditStoreUp := b\<rparr>) = User_findById w"
    by (rule User_findById_cong) simp_all
  show "User_findOne (w\<lparr>auditStoreUp := b\<rparr>) = User_findOne w"
    by (rule User_findOne_cong) simp_all
  show "BlacklistedToken_findOne (w\<lparr>auditStoreUp := b\<rparr>) = BlacklistedToken_findOne w"
    by (simp add: BlacklistedToken_findOne_def fun_eq_iff)
  show "User_countDocuments (w\<lparr>auditStoreUp := b\<rparr>) = User_countDocuments w"
    by (simp add: User_countDocuments_def fun_eq_iff)
qed

lemma reads_audited:
  "Role_findById (audited w doc) = Role_findById w"
  "User_findById (audited w doc) = User_findById w"
  "User_findOne (audited w doc) = User_findOne w"
  "BlacklistedToken_findOne (audited w doc) = BlacklistedToken_findOne w"
  "User_countDocuments (audited w doc) = User_countDocuments w"
proof -
  show "Role_findById (audited w doc) = Role_findById w"
    by (rule Role_findById_cong) (simp_all add: audited_fields)
  show "User_findById (audited w doc) = User_findById w"
    by (rule User_findById_cong) (simp_all add: audited_fields)
  show "User_findOne (audited w doc) = User_findOne w"
    by (rule User_findOne_cong) (simp_all add: audited_fields)
  show "BlacklistedToken_findOne (audited w doc) = BlacklistedToken_findOne w"
    by (simp add: BlacklistedToken_findOne_def fun_eq_iff audited_fields)
  show "User_countDocuments (audited w doc) = User_countDocuments w"
    by (simp add: User_countDocuments_def fun_eq_iff audited_fields)
qed

lemma without_audit_User_updateOne:
  "without_audit (User_updateOne w i f) = User_updateOne (without_audit w) i f"
  by (simp add: without_audit_def User_updateOne_def)

lemma without_audit_incLoginAttempts:
  "without_audit (incLoginAttempts w now u) = incLoginAttempts (without_audit w) now u"
  by (simp add: incLoginAttempts_def without_audit_User_updateOne Let_def)

lemma without_audit_resetLoginAttempts:
  "without_audit (resetLoginAttempts w now u) = resetLoginAttempts (without_audit w) now u"
  by (simp add: resetLoginAttempts_def without_audit_User_updateOne)

lemma without_audit_Role_findByIdAndDelete:
  "without_audit (Role_findByIdAndDelete w i) = Role_findByIdAndDelete (without_audit w) i"
  by (simp add: without_audit_def Role_findByIdAndDelete_def)

lemmas without_audit_simps = without_audit_audited without_audit_auditStoreUp
  without_audit_User_updateOne without_audit_incLoginAttempts
  without_audit_resetLoginAttempts without_audit_Role_findByIdAndDelete

lemma without_audit_BlacklistedTokens:
  "without_audit (w\<lparr>BlacklistedTokens := x\<rparr>) = (without_audit w)\<lparr>BlacklistedTokens := x\<rparr>"
  by (simp add: without_audit_def)

lemma login_audit_independent:
  "map_prod id without_audit (login env now (w\<lparr>auditStoreUp := False\<rparr>) req e p)
   = map_prod id without_audit (login env now (w\<lparr>auditStoreUp := True\<rparr>) req e p)"
  by (simp add: login_def createAuditLog_audited reads_auditStoreUp without_audit_simps
        Let_def split: option.splits sum.splits)

lemma logout_audit_independent:
  "map_prod id without_audit (logout (w\<lparr>auditStoreUp := False\<rparr>) req)
   = map_prod id without_audit (logout (w\<lparr>auditStoreUp := True\<rparr>) req)"
  by (simp add: logout_def BlacklistedToken_create_def createAuditLog_audited
        without_audit_simps without_audit_BlacklistedTokens Let_def split: option.splits)

lemma deleteRole_audit_independent:
  "map_prod id without_audit (deleteRole (w\<lparr>auditStoreUp := False\<rparr>) req i)
   = map_prod id without_audit (deleteRole (w\<lparr>auditStoreUp := True\<rparr>) req i)"
  by (simp add: deleteRole_def createAuditLog_audited reads_auditStoreUp without_audit_simps
        Let_def split: option.splits)

lemma Users_audited_find:
  "find P (Users (audited w doc)) = find P (Users w)"
  by (simp add: audited_fields)

lemma Users_User_updateOne_auditStoreUp:
  "Users (User_updateOne (w\<lparr>auditStoreUp := b\<rparr>) i f) = Users (User_updateOne w i f)"
  by (simp add: User_updateOne_def)

lemma assignRole_audit_independent:
  "map_prod id without_audit (assignRole (w\<lparr>auditStoreUp := False\<rparr>) req i r)
   = map_prod id without_audit (assignRole (w\<lparr>auditStoreUp := True\<rparr>) req i r)"
  by (simp add: assignRole_def createAuditLog_audited reads_auditStoreUp without_audit_simps
        audited_fields Users_User_updateOne_auditStoreUp Let_def split: option.splits)

lemma protect_audit_independent:
  "map_prod id (map_prod without_audit id) (protect env now (w\<lparr>auditStoreUp := False\<rparr>) req)
   = map_prod id (map_prod without_audit id) (protect env now (w\<lparr>auditStoreUp := True\<rparr>) req)"
  by (simp add: protect_def createAuditLog_audited reads_auditStoreUp without_audit_simps
        Let_def split: option.splits sum.splits)

lemma requirePermission_audit_independent:
  "map_prod id without_audit (requirePermission p (w\<lparr>auditStoreUp := False\<rparr>) req)
   = map_prod id without_audit (requirePermission p (w\<lparr>auditStoreUp := True\<rparr>) req)"
  by (simp add: requirePermission_def createAuditLog_audited without_audit_simps
        split: option.splits)

lemma requireAnyPermission_audit_independent:
  "map_prod id without_audit (requireAnyPermission ps (w\<lparr>auditStoreUp := False\<rparr>) req)
   = map_prod id without_audit (requireAnyPermission ps (w\<lparr>auditStoreUp := True\<rparr>) req)"
  by (simp add: requireAnyPermission_def createAuditLog_audited without_audit_simps
        split: option.splits)

lemma requireAllPermissions_audit_independent:
  "map_prod id without_audit (requireAllPermissions ps (w\<lparr>auditStoreUp := False\<rparr>) req)
   = map_prod id without_audit (requireAllPermissions ps (w\<lparr>auditStoreUp := True\<rparr>) req)"
  by (simp add: requireAllPermissions_def createAuditLog_audited without_audit_simps
        split: option.splits)

lemma requireSuperAdmin_audit_independent:
  "map_prod id without_audit (requireSuperAdmin (w\<lparr>auditStoreUp := False\<rparr>) req)
   = map_prod id without_audit (requireSuperAdmin (w\<lparr>auditStoreUp := True\<rparr>) req)"
  by (simp add: requireSuperAdmin_def createAuditLog_audited without_audit_simps
        split: option.splits)

text \<open>
  C7. A failure of the audit write is swallowed inside \<open>createAuditLog\<close>: it returns
  normally whatever happens to the write, and every modelled operation that emits an
  audit record (login, logout, deleting a role, assigning a role, the gate and its
  permission predicates) ends the same way and leaves the same store, the audit
  collection apart, whether the audit store is down or up.
\<close>

theorem audit_failure_never_propagates:
  "createAuditLog w userId action resource details req st severity \<noteq> Inl err
   \<and> map_prod id without_audit (login env now (w\<lparr>auditStoreUp := False\<rparr>) req e p)
     = map_prod id without_audit (login env now (w\<lparr>auditStoreUp := True\<rparr>) req e p)
   \<and> map_prod id without_audit (logout (w\<lparr>auditStoreUp := False\<rparr>) req)
     = map_prod id without_audit (logout (w\<lparr>auditStoreUp := True\<rparr>) req)
   \<and> map_prod id without_audit (deleteRole (w\<lparr>auditStoreUp := False\<rparr>) req i)
     = map_prod id without_audit (deleteRole (w\<lparr>auditStoreUp := True\<rparr>) req i)
   \<and> map_prod id without_audit (assignRole (w\<lparr>auditStoreUp := False\<rparr>) req i r)
     = map_prod id without_audit (assignRole (w\<lparr>auditStoreUp := True\<rparr>) req i r)
   \<and> map_prod id (map_prod without_audit id)
         (protect env now (w\<lparr>auditStoreUp := False\<rparr>) req)
     = map_prod id (map_prod without_audit id)
         (protect env now (w\<lparr>auditStoreUp := True\<rparr>) req)
   \<and> map_prod id without_audit (requirePermission perm (w\<lparr>auditStoreUp := False\<rparr>) req)
     = map_prod id without_audit (requirePermission perm (w\<lparr>auditStoreUp := True\<rparr>) req)
   \<and> map_prod id without_audit (requireAnyPermission ps (w\<lparr>auditStoreUp := False\<rparr>) req)
     = map_prod id without_audit (requireAnyPermission ps (w\<lparr>auditStoreUp := True\<rparr>) req)
   \<and> map_prod id without_audit (requireAllPermissions ps (w\<lparr>auditStoreUp := False\<rparr>) req)
     = map_prod id without_audit (requireAllPermissions ps (w\<lparr>auditStoreUp := True\<rparr>) req)
   \<and> map_prod id without_audit (requireSuperAdmin (w\<lparr>auditStoreUp := False\<rparr>) req)
     = map_prod id without_audit (requireSuperAdmin (w\<lparr>auditStoreUp := True\<rparr>) req)"
proof -
  have never: "createAuditLog w userId action resource details req st severity \<noteq> Inl err"
    by (simp add: createAuditLog_audited)
  show ?thesis
    by (intro conjI never login_audit_independent logout_audit_independent
          deleteRole_audit_independent assignRole_audit_independent
          protect_audit_independent requirePermission_audit_independent
          requireAnyPermission_audit_independent requireAllPermissions_audit_independent
          requireSuperAdmin_audit_independent)
qed

text \<open>
  The write does fail in the example: with the audit store down, a failed login of user 8
  is answered as with the store up, and no record is kept.
\<close>

lemma login_with_audit_store_down:
  "login env0 1000 (world0\<lparr>auditStoreUp := False\<rparr>) request0 ''e@example.com'' ''bad''
     = (Respond (APIResponse_error (Key ''auth.invalidCredentials'') 401),
        incLoginAttempts (world0\<lparr>auditStoreUp := False\<rparr>) 1000
          (the (User_findOne world0 ''e@example.com'')))
   \<and> AuditLogs (snd (login env0 1000 (world0\<lparr>auditStoreUp := False\<rparr>) request0
                        ''e@example.com'' ''bad'')) = []
   \<and> length (AuditLogs (snd (login env0 1000 world0 request0 ''e@example.com'' ''bad''))) = 1"
  by (simp add: login_def createAuditLog_def AuditLog_create_def AuditLog_validate_def
        AuditLog_actions_def or_else_def resourceId_of_def store_eval world0_def env0_def
        request0_def isLocked_def incLoginAttempts_def User_updateOne_def)

section \<open>Audit records of events before authentication\<close>

text \<open>
  C3. The schema of the audit collection requires \<open>userId\<close>: a record with a null
  principal fails validation, \<open>createAuditLog\<close> swallows the error, and nothing is
  written, whatever the other fields are and although the audit store is up. The login
  flow with an unknown email is such a call.
\<close>

theorem createAuditLog_null_principal_not_written:
  "AuditLog_create w (doc\<lparr>al_userId := None\<rparr>) = Inl ValidationError
   \<and> createAuditLog w None action resource details req st severity = Inr w
   \<and> login env0 1000 world0 request0 ''nobody@example.com'' ''x''
       = (Respond (APIResponse_error (Key ''auth.invalidCredentials'') 401), world0)"
proof -
  have a: "AuditLog_create w (doc\<lparr>al_userId := None\<rparr>) = Inl ValidationError"
    by (simp add: AuditLog_create_def AuditLog_validate_def)
  have b: "createAuditLog w None action resource details req st severity = Inr w"
    for w action resource details req st severity
    by (simp add: createAuditLog_def AuditLog_create_def AuditLog_validate_def)
  have c: "User_findOne world0 ''nobody@example.com'' = None"
    by (simp add: store_eval world0_def)
  have "login env0 1000 world0 request0 ''nobody@example.com'' ''x''
       = (Respond (APIResponse_error (Key ''auth.invalidCredentials'') 401), world0)"
    by (simp add: login_def c b)
  with a b show ?thesis by blast
qed

section \<open>The super-admin check\<close>

text \<open>Access is granted when the middleware calls \<open>next()\<close>.\<close>

definition granted :: "outcome \<times> world \<Rightarrow> bool" where
  "granted result = (case fst result of Next req \<Rightarrow> True | _ \<Rightarrow> False)"

text \<open>
  C10. For an authenticated principal with a populated primary role, \<open>requireSuperAdmin\<close>
  lets the request through exactly when the level of the primary role is at least 90, and
  answers 403 with the code \<open>REQUIRES_SUPER_ADMIN\<close> otherwise. The additional roles do
  not occur in the result, which stays the same when they are replaced by any other
  list: a principal whose additional role has level 100 and whose primary role has level
  10 is denied.
\<close>

theorem requireSuperAdmin_primary_level_only:
  assumes "req_user req = Some user" and "role user = Some r"
  shows "fst (requireSuperAdmin w req) =
           (if 90 \<le> role_level r then Next req
            else Respond (Json 403 (Text ''Super admin access required'')
                            (Some ''REQUIRES_SUPER_ADMIN'') None))
         \<and> granted (requireSuperAdmin w (req\<lparr>req_user := Some (user\<lparr>additionalRoles := ars\<rparr>)\<rparr>))
             = (90 \<le> role_level r)"
  using assms by (simp add: requireSuperAdmin_def createAuditLog_audited granted_def)

lemma user9_populated:
  "User_findById world0 9 =
     Some \<lparr>uid = 9, email = ''a@example.com'', password = ''$pw'',
            role = Role_findById world0 1, additionalRoles = [the (Role_findById world0 4)],
            ustatus = Active, lastLogin = None, loginAttempts = 0, lockUntil = None\<rparr>
   \<and> map_option role_level (Role_findById world0 1) = Some 10
   \<and> map_option role_level (Role_findById world0 4) = Some 100"
  by (simp add: store_eval world0_def List.map_filter_def)

theorem requireSuperAdmin_primary_level_only_witness:
  "User_findById world0 9 \<noteq> None
   \<and> map_option role_level (role (the (User_findById world0 9))) = Some 10
   \<and> map role_level (additionalRoles (the (User_findById world0 9))) = [100]
   \<and> fst (requireSuperAdmin world0 (request0\<lparr>req_user := User_findById world0 9\<rparr>))
       = Respond (Json 403 (Text ''Super admin access required'')
                    (Some ''REQUIRES_SUPER_ADMIN'') None)
   \<and> fst (requireSuperAdmin world0 (request0\<lparr>req_user := User_findById world0 6\<rparr>))
       = Next (request0\<lparr>req_user := User_findById world0 6\<rparr>)"
proof -
  obtain r1 where r1: "Role_findById world0 1 = Some r1" "role_level r1 = 10"
    using user9_populated by (cases "Role_findById world0 1") auto
  obtain r4 where r4: "Role_findById world0 4 = Some r4" "role_level r4 = 100"
    using user9_populated by (cases "Role_findById world0 4") auto
  obtain u9 where u9: "User_findById world0 9 = Some u9" "role u9 = Some r1"
      "additionalRoles u9 = [r4]"
    using user9_populated r1 r4 by auto
  have u1: "User_findById world0 6 =
     Some \<lparr>uid = 6, email = ''root@example.com'', password = ''$pw'',
            role = Some r4, additionalRoles = [],
            ustatus = Active, lastLogin = None, loginAttempts = 0, lockUntil = None\<rparr>"
    using r4 by (simp add: User_findById_def populate_user_def mk_user_def world0_def
        List.map_filter_def)
  have denied: "fst (requireSuperAdmin world0 (request0\<lparr>req_user := User_findById world0 9\<rparr>))
       = Respond (Json 403 (Text ''Super admin access required'')
                    (Some ''REQUIRES_SUPER_ADMIN'') None)"
    using requireSuperAdmin_primary_level_only
            [of "request0\<lparr>req_user := User_findById world0 9\<rparr>" u9 r1 world0]
      u9 r1 by simp
  have granted: "fst (requireSuperAdmin world0 (request0\<lparr>req_user := User_findById world0 6\<rparr>))
       = Next (request0\<lparr>req_user := User_findById world0 6\<rparr>)"
    using requireSuperAdmin_primary_level_only
            [of "request0\<lparr>req_user := User_findById world0 6\<rparr>" _ r4 world0]
      u1 r4 by simp
  show ?thesis using u9 r1 r4 denied granted by simp
qed

section \<open>Lockout guard\<close>

text \<open>
  The store keeps \<open>_id\<close> unique; the lemmas below need it to know which document an
  update by \<open>_id\<close> touches.
\<close>

lemma map_update_first:
  "(\<And>x. g (f x) = g x) \<Longrightarrow> map g (update_first Q f xs) = map g xs"
  by (induction xs) simp_all

lemma find_Some_in_set: "find P xs = Some d \<Longrightarrow> d \<in> set xs \<and> P d"
  by (induction xs) (auto split: if_splits)

lemma find_update_first:
  assumes "find P xs = Some d" and "Q d" and "\<forall>x \<in> set xs. Q x \<longrightarrow> x = d" and "P (f d)"
  shows "find P (update_first Q f xs) = Some (f d)"
  using assms(1,3)
proof (induction xs)
  case Nil
  then show ?case by simp
next
  case (Cons x xs)
  note found = Cons.prems(1) and uniq = Cons.prems(2)
  show ?case
  proof (cases "P x")
    case True
    with found have "x = d" by simp
    with assms(2,4) show ?thesis by simp
  next
    case False
    with found have tl: "find P xs = Some d" by simp
    from find_Some_in_set [OF tl] have "P d" by simp
    with False have "x \<noteq> d" by auto
    moreover from uniq have "Q x \<longrightarrow> x = d" by simp
    ultimately have nq: "\<not> Q x" by blast
    from uniq have "\<forall>y \<in> set xs. Q y \<longrightarrow> y = d" by simp
    with Cons.IH tl have "find P (update_first Q f xs) = Some (f d)" by blast
    with False nq show ?thesis by simp
  qed
qed

lemma unique_id:
  assumes "distinct (map ud_id xs)" and "d \<in> set xs"
  shows "\<forall>x \<in> set xs. ud_id x = ud_id d \<longrightarrow> x = d"
proof -
  from assms(1) have "inj_on ud_id (set xs)" by (simp add: distinct_map)
  with assms(2) show ?thesis by (auto dest: inj_onD)
qed

definition failed_update :: "nat \<Rightarrow> user_doc \<Rightarrow> user_doc" where
  "failed_update now d =
     d\<lparr>ud_loginAttempts := ud_loginAttempts d + 1,
       ud_lockUntil := (if 5 \<le> ud_loginAttempts d + 1 then Some (now + 7200000) else None)\<rparr>"

lemma login_wrong_password:
  assumes dist: "distinct (map ud_id (Users w))"
      and found: "find (\<lambda>x. ud_email x = e) (Users w) = Some d"
      and active: "ud_status d = Active"
      and unlocked: "ud_lockUntil d = None"
      and wrong: "\<not> bcrypt_compare env p (ud_password d)"
  shows "fst (login env now w req e p)
           = Respond (APIResponse_error (Key ''auth.invalidCredentials'') 401)"
    and "find (\<lambda>x. ud_email x = e) (Users (snd (login env now w req e p)))
           = Some (failed_update now d)"
    and "distinct (map ud_id (Users (snd (login env now w req e p))))"
proof -
  let ?u = "populate_user w d"
  have fo: "User_findOne w e = Some ?u"
    by (simp add: User_findOne_def found)
  have fields: "lockUntil ?u = None" "ustatus ?u = Active" "password ?u = ud_password d"
    "uid ?u = ud_id d" "loginAttempts ?u = ud_loginAttempts d"
    by (simp_all add: populate_user_def active unlocked)
  obtain f where inc: "Users (incLoginAttempts w now ?u)
               = update_first (\<lambda>x. ud_id x = ud_id d) f (Users w)"
      and fd: "f d = failed_update now d" and fid: "\<And>x. ud_id (f x) = ud_id x"
  proof (cases "5 \<le> ud_loginAttempts d + 1")
    case True
    show ?thesis
    proof (rule that)
      show "Users (incLoginAttempts w now ?u)
               = update_first (\<lambda>x. ud_id x = ud_id d)
                   (\<lambda>x. x\<lparr>ud_loginAttempts := ud_loginAttempts x + 1,
                           ud_lockUntil := Some (now + 2 * 60 * 60 * 1000)\<rparr>) (Users w)"
        using True
        by (simp add: incLoginAttempts_def fields isLocked_def User_updateOne_def)
      show "d\<lparr>ud_loginAttempts := ud_loginAttempts d + 1,
               ud_lockUntil := Some (now + 2 * 60 * 60 * 1000)\<rparr> = failed_update now d"
        using True by (simp add: failed_update_def)
    qed simp
  next
    case False
    show ?thesis
    proof (rule that)
      show "Users (incLoginAttempts w now ?u)
               = update_first (\<lambda>x. ud_id x = ud_id d)
                   (\<lambda>x. x\<lparr>ud_loginAttempts := ud_loginAttempts x + 1\<rparr>) (Users w)"
        using False
        by (simp add: incLoginAttempts_def fields isLocked_def User_updateOne_def)
      show "d\<lparr>ud_loginAttempts := ud_loginAttempts d + 1\<rparr> = failed_update now d"
        using False unlocked by (simp add: failed_update_def)
    qed simp
  qed
  have res: "login env now w req e p =
     (Respond (APIResponse_error (Key ''auth.invalidCredentials'') 401),
      audited (incLoginAttempts w now ?u)
        (audit_entry (Some (ud_id d)) ''failed_login'' ''auth''
           [(''reason'', Str ''invalid_password''),
            (''attempts'', Num (ud_loginAttempts d + 1))]
           req ''failure'' (if 3 \<le> ud_loginAttempts d then ''high'' else ''medium'')))"
    using wrong
    by (simp add: login_def fo fields isLocked_def createAuditLog_audited)
  show "fst (login env now w req e p)
           = Respond (APIResponse_error (Key ''auth.invalidCredentials'') 401)"
    by (simp add: res)
  have users: "Users (snd (login env now w req e p))
                 = update_first (\<lambda>x. ud_id x = ud_id d) f (Users w)"
    by (simp add: res audited_fields inc)
  have din: "d \<in> set (Users w)" and de: "ud_email d = e"
    using find_Some_in_set [OF found] by simp_all
  have "find (\<lambda>x. ud_email x = e) (update_first (\<lambda>x. ud_id x = ud_id d) f (Users w))
          = Some (f d)"
  proof (rule find_update_first [OF found])
    show "ud_id d = ud_id d" by simp
    show "\<forall>x \<in> set (Users w). ud_id x = ud_id d \<longrightarrow> x = d"
      by (rule unique_id [OF dist din])
    show "ud_email (f d) = e"
      by (simp add: fd failed_update_def de)
  qed
  then show "find (\<lambda>x. ud_email x = e) (Users (snd (login env now w req e p)))
           = Some (failed_update now d)"
    by (simp add: users fd)
  show "distinct (map ud_id (Users (snd (login env now w req e p))))"
    using dist by (simp add: users map_update_first fid)
qed


lemma login_locked:
  assumes found: "find (\<lambda>x. ud_email x = e) (Users w) = Some d"
      and locked: "ud_lockUntil d = Some l" and window: "now < l"
  shows "fst (login env now w req e p)
           = Respond (APIResponse_error (Key ''user.accountLocked'') 423)"
proof -
  have fo: "User_findOne w e = Some (populate_user w d)"
    by (simp add: User_findOne_def found)
  have "isLocked (populate_user w d) now"
    by (simp add: isLocked_def populate_user_def locked window)
  then show ?thesis
    by (simp add: login_def fo createAuditLog_audited)
qed

text \<open>
  C5. A principal that is active and unlocked with a failure counter of 0 is locked after
  exactly five consecutive failed password checks: after the fourth the counter is 4 and
  there is no lock, after the fifth (at the time \<open>t5\<close>) the counter is 5 and the lock
  expires two hours after \<open>t5\<close>. A sixth attempt at any time \<open>t6\<close> inside the lock
  window is answered with 423, whatever password it carries.
\<close>

theorem five_failed_logins_lock_the_account:
  assumes ids: "distinct (map ud_id (Users w0))"
      and principal: "User_findOne w0 e = Some u"
      and active: "ustatus u = Active"
      and zero: "loginAttempts u = 0"
      and unlocked: "lockUntil u = None"
      and wrong: "\<not> bcrypt_compare env p1 (password u)" "\<not> bcrypt_compare env p2 (password u)"
        "\<not> bcrypt_compare env p3 (password u)" "\<not> bcrypt_compare env p4 (password u)"
        "\<not> bcrypt_compare env p5 (password u)"
      and w1: "w1 = snd (login env t1 w0 r1 e p1)"
      and w2: "w2 = snd (login env t2 w1 r2 e p2)"
      and w3: "w3 = snd (login env t3 w2 r3 e p3)"
      and w4: "w4 = snd (login env t4 w3 r4 e p4)"
      and w5: "w5 = snd (login env t5 w4 r5 e p5)"
      and window: "t6 < t5 + 2 * 60 * 60 * 1000"
  shows "\<exists>u4 u5. User_findOne w4 e = Some u4 \<and> loginAttempts u4 = 4 \<and> lockUntil u4 = None
           \<and> User_findOne w5 e = Some u5 \<and> loginAttempts u5 = 5
           \<and> lockUntil u5 = Some (t5 + 2 * 60 * 60 * 1000) \<and> isLocked u5 t6
           \<and> fst (login env t6 w5 r6 e p6)
               = Respond (APIResponse_error (Key ''user.accountLocked'') 423)"
proof -
  from principal obtain d0 where f0: "find (\<lambda>x. ud_email x = e) (Users w0) = Some d0"
      and u: "u = populate_user w0 d0"
    by (auto simp: User_findOne_def)
  have d0: "ud_status d0 = Active" "ud_loginAttempts d0 = 0" "ud_lockUntil d0 = None"
      "ud_password d0 = password u"
    using active zero unlocked by (simp_all add: u populate_user_def)
  define d1 where "d1 = failed_update t1 d0"
  define d2 where "d2 = failed_update t2 d1"
  define d3 where "d3 = failed_update t3 d2"
  define d4 where "d4 = failed_update t4 d3"
  define d5 where "d5 = failed_update t5 d4"
  have d1: "ud_status d1 = Active" "ud_loginAttempts d1 = 1" "ud_lockUntil d1 = None"
      "ud_password d1 = password u"
    using d0 by (simp_all add: d1_def failed_update_def)
  have d2: "ud_status d2 = Active" "ud_loginAttempts d2 = 2" "ud_lockUntil d2 = None"
      "ud_password d2 = password u"
    using d1 by (simp_all add: d2_def failed_update_def)
  have d3: "ud_status d3 = Active" "ud_loginAttempts d3 = 3" "ud_lockUntil d3 = None"
      "ud_password d3 = password u"
    using d2 by (simp_all add: d3_def failed_update_def)
  have d4: "ud_status d4 = Active" "ud_loginAttempts d4 = 4" "ud_lockUntil d4 = None"
      "ud_password d4 = password u"
    using d3 by (simp_all add: d4_def failed_update_def)
  have d5: "ud_loginAttempts d5 = 5" "ud_lockUntil d5 = Some (t5 + 2 * 60 * 60 * 1000)"
    using d4 by (simp_all add: d5_def failed_update_def)
  have s1: "find (\<lambda>x. ud_email x = e) (Users w1) = Some d1" "distinct (map ud_id (Users w1))"
    unfolding w1 d1_def using login_wrong_password [OF ids f0 d0(1) d0(3)] wrong(1) d0(4)
    by simp_all
  have s2: "find (\<lambda>x. ud_email x = e) (Users w2) = Some d2" "distinct (map ud_id (Users w2))"
    unfolding w2 d2_def using login_wrong_password [OF s1(2) s1(1) d1(1) d1(3)] wrong(2) d1(4)
    by simp_all
  have s3: "find (\<lambda>x. ud_email x = e) (Users w3) = Some d3" "distinct (map ud_id (Users w3))"
    unfolding w3 d3_def using login_wrong_password [OF s2(2) s2(1) d2(1) d2(3)] wrong(3) d2(4)
    by simp_all
  have s4: "find (\<lambda>x. ud_email x = e) (Users w4) = Some d4" "distinct (map ud_id (Users w4))"
    unfolding w4 d4_def using login_wrong_password [OF s3(2) s3(1) d3(1) d3(3)] wrong(4) d3(4)
    by simp_all
  have s5: "find (\<lambda>x. ud_email x = e) (Users w5) = Some d5"
    unfolding w5 d5_def using login_wrong_password [OF s4(2) s4(1) d4(1) d4(3)] wrong(5) d4(4)
    by simp_all
  have u4: "User_findOne w4 e = Some (populate_user w4 d4)"
    by (simp add: User_findOne_def s4(1))
  have u5: "User_findOne w5 e = Some (populate_user w5 d5)"
    by (simp add: User_findOne_def s5)
  have f4: "loginAttempts (populate_user w4 d4) = 4" "lockUntil (populate_user w4 d4) = None"
    by (simp_all add: populate_user_def d4)
  have f5: "loginAttempts (populate_user w5 d5) = 5"
      "lockUntil (populate_user w5 d5) = Some (t5 + 2 * 60 * 60 * 1000)"
    by (simp_all add: populate_user_def d5)
  have locked: "isLocked (populate_user w5 d5) t6"
    using window by (simp add: isLocked_def f5)
  have rejected: "fst (login env t6 w5 r6 e p6)
               = Respond (APIResponse_error (Key ''user.accountLocked'') 423)"
    by (rule login_locked [OF s5 d5(2) window])
  from u4 u5 f4 f5 locked rejected show ?thesis by blast
qed

theorem five_failed_logins_lock_the_account_witness:
  "bcrypt_compare env0 ''pw'' ''$pw''
   \<and> fst (login env0 6000
           (snd (login env0 5000
             (snd (login env0 4000
               (snd (login env0 3000
                 (snd (login env0 2000
                   (snd (login env0 1000 world0 request0 ''e@example.com'' ''bad1''))
                   request0 ''e@example.com'' ''bad2''))
                 request0 ''e@example.com'' ''bad3''))
               request0 ''e@example.com'' ''bad4''))
             request0 ''e@example.com'' ''bad5''))
           request0 ''e@example.com'' ''pw'')
       = Respond (APIResponse_error (Key ''user.accountLocked'') 423)"
proof -
  have ids: "distinct (map ud_id (Users world0))"
    by (simp add: world0_def mk_user_def)
  have principal: "User_findOne world0 ''e@example.com'' =
      Some (populate_user world0 (mk_user 8 ''e@example.com'' 2 []))"
    by (simp add: User_findOne_def world0_def mk_user_def)
  have fields: "ustatus (populate_user world0 (mk_user 8 ''e@example.com'' 2 [])) = Active"
    "loginAttempts (populate_user world0 (mk_user 8 ''e@example.com'' 2 [])) = 0"
    "lockUntil (populate_user world0 (mk_user 8 ''e@example.com'' 2 [])) = None"
    "password (populate_user world0 (mk_user 8 ''e@example.com'' 2 [])) = ''$pw''"
    by (simp_all add: populate_user_def mk_user_def)
  have wrong: "\<not> bcrypt_compare env0 ''bad1''
                  (password (populate_user world0 (mk_user 8 ''e@example.com'' 2 [])))"
    "\<not> bcrypt_compare env0 ''bad2''
                  (password (populate_user world0 (mk_user 8 ''e@example.com'' 2 [])))"
    "\<not> bcrypt_compare env0 ''bad3''
                  (password (populate_user world0 (mk_user 8 ''e@example.com'' 2 [])))"
    "\<not> bcrypt_compare env0 ''bad4''
                  (password (populate_user world0 (mk_user 8 ''e@example.com'' 2 [])))"
    "\<not> bcrypt_compare env0 ''bad5''
                  (password (populate_user world0 (mk_user 8 ''e@example.com'' 2 [])))"
    by (simp_all add: fields env0_def)
  have right: "bcrypt_compare env0 ''pw'' ''$pw''"
    by (simp add: env0_def)
  have window: "(6000::nat) < 5000 + 2 * 60 * 60 * 1000" by simp
  define w1 where "w1 = snd (login env0 1000 world0 request0 ''e@example.com'' ''bad1'')"
  define w2 where "w2 = snd (login env0 2000 w1 request0 ''e@example.com'' ''bad2'')"
  define w3 where "w3 = snd (login env0 3000 w2 request0 ''e@example.com'' ''bad3'')"
  define w4 where "w4 = snd (login env0 4000 w3 request0 ''e@example.com'' ''bad4'')"
  define w5 where "w5 = snd (login env0 5000 w4 request0 ''e@example.com'' ''bad5'')"
  have "fst (login env0 6000 w5 request0 ''e@example.com'' ''pw'')
          = Respond (APIResponse_error (Key ''user.accountLocked'') 423)"
    using five_failed_logins_lock_the_account
         [OF ids principal fields(1,2,3) wrong w1_def w2_def w3_def w4_def w5_def window]
    by blast
  then show ?thesis
    using right by (simp add: w1_def w2_def w3_def w4_def w5_def)
qed

section \<open>Deleting a role that is in use\<close>


text \<open>
  The principals a role is assigned to, as its primary role (\<open>assignRole\<close>) or as an
  additional role (\<open>addAdditionalRole\<close>).
\<close>

definition assigned_principals :: "world \<Rightarrow> oid \<Rightarrow> user_doc list" where
  "assigned_principals w r =
     filter (\<lambda>d. ud_role d = r \<or> r \<in> set (ud_additionalRoles d)) (Users w)"






text \<open>
  A defect of \<open>deleteRole\<close>, outside the statement above: its count (line 217, under
  the comment \<open>Check if role is in use\<close>) reads the primary role only. The role
  \<open>auditor\<close>, which user 10 holds as an additional role, is deleted, and user 10 keeps
  the reference to it.
\<close>

lemma deleteRole_additional_holder_defect:
  "map ud_id (assigned_principals world0 3) = [10]
   \<and> fst (deleteRole world0 (request0\<lparr>req_user := User_findById world0 6\<rparr>) 3)
       = Respond (APIResponse_deleted (Text ''Role deleted successfully''))
   \<and> map rd_id (Roles (snd (deleteRole world0
                                (request0\<lparr>req_user := User_findById world0 6\<rparr>) 3)))
       = [1, 2, 4]
   \<and> map ud_additionalRoles
         (filter (\<lambda>d. ud_id d = 10)
            (Users (snd (deleteRole world0
                           (request0\<lparr>req_user := User_findById world0 6\<rparr>) 3))))
       = [[3]]"
proof -
  have h: "map ud_id (assigned_principals world0 3) = [10]"
    by (simp add: assigned_principals_def world0_def mk_user_def)
  have r3: "Role_findById world0 3 =
     Some \<lparr>role_id = 3, role_name = ''auditor'',
       role_permissions = [\<lparr>perm_id = 1, perm_name = ''content:read''\<rparr>,
                           \<lparr>perm_id = 5, perm_name = ''audit:read''\<rparr>],
       role_level = 30, role_isSystemRole = False\<rparr>"
    by (simp add: store_eval world0_def List.map_filter_def)
  have n3: "User_countDocuments world0 3 = 0"
    by (simp add: store_eval world0_def)
  obtain a where a1: "User_findById world0 6 = Some a" and a2: "uid a = 6"
    by (simp add: store_eval world0_def)
  obtain doc where
    del: "deleteRole world0 (request0\<lparr>req_user := User_findById world0 6\<rparr>) 3
       = (Respond (APIResponse_deleted (Text ''Role deleted successfully'')),
          audited (Role_findByIdAndDelete world0 3) doc)"
    by (simp add: deleteRole_def r3 n3 createAuditLog_audited a1 a2 Let_def)
  have e: "fst (deleteRole world0 (request0\<lparr>req_user := User_findById world0 6\<rparr>) 3)
       = Respond (APIResponse_deleted (Text ''Role deleted successfully''))"
    by (simp add: del)
  have f: "map rd_id (Roles (snd (deleteRole world0
                                (request0\<lparr>req_user := User_findById world0 6\<rparr>) 3)))
       = [1, 2, 4]"
    unfolding del by (simp add: audited_fields Role_findByIdAndDelete_def world0_def)
  have g: "map ud_additionalRoles
         (filter (\<lambda>d. ud_id d = 10)
            (Users (snd (deleteRole world0
                           (request0\<lparr>req_user := User_findById world0 6\<rparr>) 3))))
       = [[3]]"
    unfolding del
    by (simp add: audited_fields Role_findByIdAndDelete_def world0_def mk_user_def)
  from h e f g show ?thesis by simp
qed

section \<open>Tokens of the example\<close>

text \<open>
  User 8 as the store returns it, the token issued to it at the time 5000 with its
  claims, and the same token with another signature. \<open>with_bearer\<close> puts a token into
  the Authorization header.
\<close>

definition user8 :: user where
  "user8 = \<lparr>uid = 8, email = ''e@example.com'', password = ''$pw'',
     role = Some role_editor, additionalRoles = [], ustatus = Active,
     lastLogin = None, loginAttempts = 0, lockUntil = None\<rparr>"

definition token8 :: string where
  "token8 = ''93.8.13.e@example.com6.editor4.14.content:create12.content:read14.content:update9.user:read5.65.terc3s''"

definition claims8 :: claims where
  "claims8 = \<lparr>c_id = 8, c_email = ''e@example.com'', c_role = ''editor'',
     c_permissions = [''content:create'', ''content:read'', ''content:update'', ''user:read''],
     c_iat = 5, c_exp = 65\<rparr>"

lemma user8_stored: "User_findById world0 8 = Some user8"
  by (simp add: store_eval world0_def List.map_filter_def user8_def role_editor_def)

lemma user8_permissions:
  "allPermissions user8 = [''content:create'', ''content:read'', ''content:update'', ''user:read'']"
  by (simp add: allPermissions_user user8_def role_editor_def add_role_permissions_def
        set_add_def)

lemma token8_signed:
  "token8 = jwt_sign env0 5000
     \<lparr>p_id = 8, p_email = ''e@example.com'', p_role = ''editor'',
      p_permissions = [''content:create'', ''content:read'', ''content:update'', ''user:read'']\<rparr>
     ''s3cret''"
  unfolding token8_def env0_def by code_simp

lemma token8_issued: "generateAuthToken env0 5000 user8 = Inr token8"
proof -
  have fields: "role user8 = Some role_editor" "uid user8 = 8" "email user8 = ''e@example.com''"
    "role_name role_editor = ''editor''" "jwt_secret env0 = ''s3cret''"
    by (simp_all add: user8_def role_editor_def env0_def)
  show ?thesis
    by (simp add: generateAuthToken_def fields user8_permissions token8_signed)
qed

lemma token8_verified: "jwt_verify env0 6000 token8 (jwt_secret env0) = Inr claims8"
proof -
  have s: "jwt_secret env0 = ''s3cret''" "jwt_expiresIn env0 = 60"
    by (simp_all add: env0_def)
  show ?thesis
    unfolding s token8_signed by (simp add: jwt_verify_sign s claims8_def)
qed

lemma split_on_no_separator: "c \<notin> set t \<Longrightarrow> split_on c t = [t]"
  by (induction t) auto

definition with_bearer :: "request \<Rightarrow> string \<Rightarrow> request" where
  "with_bearer req t = req\<lparr>authorization := Some (''Bearer '' @ t)\<rparr>"

lemma bearer_token_header:
  assumes "CHR '' '' \<notin> set t"
  shows "bearer_token (with_bearer req t) = Some t"
  using assms
  by (simp add: with_bearer_def bearer_token_def startsWith_def nth_opt_def
        split_on_no_separator)

section \<open>Issuing and verifying a token\<close>

text \<open>
  C9. For every principal \<open>P\<close> and permission list \<open>perms\<close>, verifying before expiry,
  with the process-wide secret, the token issued for \<open>P\<close> and \<open>perms\<close> with the same
  secret returns claims with the identifier of \<open>P\<close> and the permission list \<open>perms\<close>;
  so does the token of \<open>generateAuthToken\<close>, whose permission list is
  \<open>allPermissions\<close> of \<open>P\<close>. Verification does not read the revocation ledger.
\<close>

theorem verify_issue_round_trip:
  assumes "now' div 1000 < now div 1000 + jwt_expiresIn env" and "role P = Some r"
  shows "(\<exists>decoded. jwt_verify env now'
                        (jwt_sign env now
                           \<lparr>p_id = uid P, p_email = email P, p_role = role_name r,
                            p_permissions = perms\<rparr> (jwt_secret env))
                        (jwt_secret env) = Inr decoded
                    \<and> c_id decoded = uid P \<and> c_permissions decoded = perms)
       \<and> (\<exists>token decoded. generateAuthToken env now P = Inr token
                    \<and> jwt_verify env now' token (jwt_secret env) = Inr decoded
                    \<and> c_id decoded = uid P \<and> c_permissions decoded = allPermissions P)"
  using assms by (simp add: generateAuthToken_def jwt_verify_sign)

theorem verify_issue_round_trip_witness:
  "generateAuthToken env0 5000 user8 = Inr token8
   \<and> jwt_verify env0 6000 token8 (jwt_secret env0) = Inr claims8
   \<and> c_id claims8 = uid user8 \<and> c_permissions claims8 = allPermissions user8"
proof -
  have t: "(6000::nat) div 1000 < 5000 div 1000 + jwt_expiresIn env0"
    by (simp add: env0_def)
  have r: "role user8 = Some role_editor"
    by (simp add: user8_def)
  from verify_issue_round_trip [OF t r]
  have "\<exists>token decoded. generateAuthToken env0 5000 user8 = Inr token
          \<and> jwt_verify env0 6000 token (jwt_secret env0) = Inr decoded
          \<and> c_id decoded = uid user8 \<and> c_permissions decoded = allPermissions user8"
    by blast
  then show ?thesis
    by (simp add: token8_issued token8_verified)
qed


section \<open>Order of the checks in the gate\<close>

lemma find_None_iff_image: "(find (\<lambda>b. f b = t) xs = None) = (t \<notin> f ` set xs)"
  by (induction xs) auto

lemma protect_blacklisted:
  assumes "bearer_token req = Some token" and "token \<noteq> []"
      and "BlacklistedToken_findOne w token \<noteq> None"
  shows "protect env now w req =
           (Respond (Json 401 (Text ''Token has been invalidated'')
                       (Some ''TOKEN_BLACKLISTED'') None),
            w, [BlacklistLookup token])"
  using assms by (auto simp: protect_def)

text \<open>
  C2, as the code has it. For every request with a non-empty bearer token, \<open>protect\<close>
  looks the token up in the blacklist first and verifies it afterwards: a blacklisted
  token is answered with \<open>TOKEN_BLACKLISTED\<close> and is never verified, and every token
  that reaches verification, valid or not, has been looked up before.
\<close>

theorem protect_blacklist_lookup_precedes_verification:
  assumes "bearer_token req = Some token" and "token \<noteq> []"
  shows "snd (snd (protect env now w req)) =
           (case BlacklistedToken_findOne w token of
              Some blacklisted \<Rightarrow> [BlacklistLookup token]
            | None \<Rightarrow>
                (case jwt_verify env now token (jwt_secret env) of
                   Inl error \<Rightarrow> [BlacklistLookup token, JwtVerify token]
                 | Inr decoded \<Rightarrow>
                     [BlacklistLookup token, JwtVerify token, UserLookup (c_id decoded)]))
         \<and> (BlacklistedToken_findOne w token \<noteq> None \<longrightarrow>
              fst (protect env now w req) =
                Respond (Json 401 (Text ''Token has been invalidated'')
                           (Some ''TOKEN_BLACKLISTED'') None))"
  using assms
  by (simp add: protect_def createAuditLog_audited Let_def split: option.splits sum.splits)

definition forged8 :: string where
  "forged8 = ''93.8.13.e@example.com6.editor4.14.content:create12.content:read14.content:update9.user:read5.65.forged''"

lemma forged8_body: "forged8 = enc_str (enc_claims claims8) @ ''forged''"
  unfolding forged8_def claims8_def by code_simp

lemma forged8_rejected: "jwt_verify env0 6000 forged8 (jwt_secret env0) = Inl JsonWebTokenError"
  unfolding forged8_body
  by (simp add: jwt_verify_def dec_str_enc_str dec_claims_enc_claims env0_def)

lemma forged8_bearer: "bearer_token (with_bearer request0 forged8) = Some forged8"
  by (rule bearer_token_header) (simp add: forged8_def)

text \<open>
  C2 as stated fails: a token with a wrong signature is looked up in the blacklist
  before its verification fails.
\<close>

theorem blacklist_after_verification_counterexample:
  "jwt_verify env0 6000 forged8 (jwt_secret env0) = Inl JsonWebTokenError
   \<and> protect env0 6000 world0 (with_bearer request0 forged8)
       = (Respond (Json 401 (Text ''Invalid token'') (Some ''TOKEN_INVALID'') None), world0,
          [BlacklistLookup forged8, JwtVerify forged8])"
proof -
  have nb: "BlacklistedToken_findOne world0 forged8 = None"
    by (simp add: BlacklistedToken_findOne_def world0_def)
  have ne: "forged8 \<noteq> []"
    by (simp add: forged8_def)
  have "protect env0 6000 world0 (with_bearer request0 forged8)
       = (Respond (Json 401 (Text ''Invalid token'') (Some ''TOKEN_INVALID'') None), world0,
          [BlacklistLookup forged8, JwtVerify forged8])"
    by (simp add: protect_def forged8_bearer ne nb forged8_rejected protect_catch_def)
  with forged8_rejected show ?thesis by simp
qed

theorem protect_blacklist_lookup_precedes_verification_witness:
  "bearer_token (with_bearer request0 forged8) = Some forged8
   \<and> snd (snd (protect env0 6000 world0
                  (with_bearer request0 forged8)))
       = [BlacklistLookup forged8, JwtVerify forged8]"
proof -
  have nb: "BlacklistedToken_findOne world0 forged8 = None"
    by (simp add: BlacklistedToken_findOne_def world0_def)
  have ne: "forged8 \<noteq> []"
    by (simp add: forged8_def)
  from protect_blacklist_lookup_precedes_verification [OF forged8_bearer ne, of env0 6000 world0]
  show ?thesis
    by (simp add: forged8_bearer nb forged8_rejected)
qed


section \<open>Revoking a token twice\<close>

lemma logout_success:
  assumes "logout w req = (Respond r, w1)"
  obtains token decoded user bt doc where
    "req_token req = Some token" "jwt_decode token = Some decoded" "req_user req = Some user"
    "token \<noteq> []" "bt_token bt = token"
    "w1 = audited (w\<lparr>BlacklistedTokens := BlacklistedTokens w @ [bt]\<rparr>) doc"
proof -
  from assms obtain token where t: "req_token req = Some token"
    by (cases "req_token req") (simp_all add: logout_def)
  from assms t obtain decoded where d: "jwt_decode token = Some decoded"
    by (cases "jwt_decode token") (simp_all add: logout_def)
  from assms t d obtain user where u: "req_user req = Some user"
    by (cases "req_user req") (simp_all add: logout_def)
  let ?bt = "\<lparr>bt_token = token, bt_userId = uid user, bt_reason = ''logout'',
              bt_userAgent = userAgent req,
              bt_ipAddress = (case ip req of None \<Rightarrow> remoteAddress req
                              | Some a \<Rightarrow> if a = [] then remoteAddress req else Some a),
              bt_expiresAt = c_exp decoded * 1000\<rparr>"
  from assms t d u have ok: "token \<noteq> [] \<and> token \<notin> bt_token ` set (BlacklistedTokens w)"
    by (auto simp: logout_def BlacklistedToken_create_def Let_def split: if_splits)
  with assms t d u obtain doc where
    "w1 = audited (w\<lparr>BlacklistedTokens := BlacklistedTokens w @ [?bt]\<rparr>) doc"
    by (auto simp: logout_def BlacklistedToken_create_def createAuditLog_audited Let_def)
  with t d u ok show thesis
    by (intro that [of token decoded user ?bt doc]) simp_all
qed

text \<open>
  C4, as the code has it. After a logout that succeeded, the token is in the ledger, and
  revoking it again does not succeed: \<open>logout\<close> called again with the same token hands
  the duplicate-key error of the unique index to \<open>next(error)\<close>, and a request through
  the gate with that token is answered with \<open>TOKEN_BLACKLISTED\<close> before it reaches
  \<open>logout\<close>. Either way the store, the ledger included, stays as the first revocation
  left it.
\<close>

theorem second_logout_is_rejected_ledger_unchanged:
  assumes "logout w req = (Respond r, w1)"
  shows "\<exists>token. req_token req = Some token
           \<and> token \<in> bt_token ` set (BlacklistedTokens w1)
           \<and> logout w1 req = (NextError (DuplicateKeyError ''token''), w1)
           \<and> (bearer_token req' = Some token \<longrightarrow>
                protect env now w1 req' =
                  (Respond (Json 401 (Text ''Token has been invalidated'')
                              (Some ''TOKEN_BLACKLISTED'') None),
                   w1, [BlacklistLookup token]))"
proof -
  from assms obtain token decoded user doc bt where
    t: "req_token req = Some token" and d: "jwt_decode token = Some decoded"
    and u: "req_user req = Some user" and ne: "token \<noteq> []"
    and bt: "bt_token bt = token"
    and w1: "w1 = audited (w\<lparr>BlacklistedTokens := BlacklistedTokens w @ [bt]\<rparr>) doc"
    by (rule logout_success)
  have ledger: "BlacklistedTokens w1 = BlacklistedTokens w @ [bt]"
    by (simp add: w1 audited_fields)
  have revoked: "token \<in> bt_token ` set (BlacklistedTokens w1)"
    by (simp add: ledger bt)
  have again: "logout w1 req = (NextError (DuplicateKeyError ''token''), w1)"
    using revoked ne by (simp add: logout_def t d u BlacklistedToken_create_def)
  have found: "BlacklistedToken_findOne w1 token \<noteq> None"
    using revoked by (simp add: BlacklistedToken_findOne_def find_None_iff_image)
  have gate: "bearer_token req' = Some token \<longrightarrow>
                protect env now w1 req' =
                  (Respond (Json 401 (Text ''Token has been invalidated'')
                              (Some ''TOKEN_BLACKLISTED'') None),
                   w1, [BlacklistLookup token])"
    using protect_blacklisted [OF _ ne found] by blast
  from t revoked again gate show ?thesis by blast
qed

definition logout_request :: request where
  "logout_request = (with_bearer request0 token8)\<lparr>req_user := Some user8,
                                                  req_token := Some token8\<rparr>"

lemma token8_decoded: "jwt_decode token8 = Some claims8"
  unfolding token8_signed by (simp add: jwt_decode_sign claims8_def env0_def)

lemma token8_bearer: "bearer_token (with_bearer request0 token8) = Some token8"
  by (rule bearer_token_header) (simp add: token8_def)

lemma first_logout:
  "fst (logout world0 logout_request) = Respond (APIResponse_success NoData (Key ''auth.logoutSuccess''))
   \<and> map bt_token (BlacklistedTokens (snd (logout world0 logout_request))) = [token8]"
proof -
  have ne: "token8 \<noteq> []" by (simp add: token8_def)
  have fields: "req_token logout_request = Some token8" "req_user logout_request = Some user8"
    by (simp_all add: logout_request_def)
  have empty: "BlacklistedTokens world0 = []"
    by (simp add: world0_def)
  show ?thesis
    using ne
    by (simp add: logout_def fields token8_decoded BlacklistedToken_create_def
          createAuditLog_audited audited_fields empty Let_def)
qed

text \<open>
  C4 as stated fails: the second logout with the token of user 8 ends in an error, not
  in a success.
\<close>

theorem revocation_idempotent_counterexample:
  "fst (logout world0 logout_request)
     = Respond (APIResponse_success NoData (Key ''auth.logoutSuccess''))
   \<and> logout (snd (logout world0 logout_request)) logout_request
     = (NextError (DuplicateKeyError ''token''), snd (logout world0 logout_request))
   \<and> protect env0 6000 (snd (logout world0 logout_request)) (with_bearer request0 token8)
     = (Respond (Json 401 (Text ''Token has been invalidated'') (Some ''TOKEN_BLACKLISTED'') None),
        snd (logout world0 logout_request), [BlacklistLookup token8])"
proof -
  have ne: "token8 \<noteq> []" by (simp add: token8_def)
  have fields: "req_token logout_request = Some token8" "req_user logout_request = Some user8"
    by (simp_all add: logout_request_def)
  have revoked: "token8 \<in> bt_token ` set (BlacklistedTokens (snd (logout world0 logout_request)))"
    using first_logout by (metis list.set_intros(1) list.set_map)
  have again: "logout (snd (logout world0 logout_request)) logout_request
     = (NextError (DuplicateKeyError ''token''), snd (logout world0 logout_request))"
    using revoked ne by (simp add: logout_def fields token8_decoded BlacklistedToken_create_def)
  have found: "BlacklistedToken_findOne (snd (logout world0 logout_request)) token8 \<noteq> None"
    using revoked by (simp add: BlacklistedToken_findOne_def find_None_iff_image)
  from first_logout again protect_blacklisted [OF token8_bearer ne found]
  show ?thesis by simp
qed

theorem second_logout_is_rejected_ledger_unchanged_witness:
  "logout (snd (logout world0 logout_request)) logout_request
     = (NextError (DuplicateKeyError ''token''), snd (logout world0 logout_request))
   \<and> token8 \<in> bt_token ` set (BlacklistedTokens (snd (logout world0 logout_request)))"
proof -
  have first: "logout world0 logout_request =
      (Respond (APIResponse_success NoData (Key ''auth.logoutSuccess'')),
       snd (logout world0 logout_request))"
    using first_logout by (cases "logout world0 logout_request") simp
  have t: "req_token logout_request = Some token8"
    by (simp add: logout_request_def)
  from second_logout_is_rejected_ledger_unchanged [OF first] t
  show ?thesis by auto
qed


section \<open>Which permissions the gate checks\<close>

lemma protect_next:
  assumes "protect env now w req = (Next req', w', tr)"
  obtains token decoded user where
    "bearer_token req = Some token" "jwt_verify env now token (jwt_secret env) = Inr decoded"
    "User_findById w (c_id decoded) = Some user"
    "req' = req\<lparr>req_user := Some user, req_token := Some token\<rparr>" "w' = w"
proof -
  from assms obtain token where t: "bearer_token req = Some token"
    by (cases "bearer_token req") (simp_all add: protect_def)
  from assms t have ne: "token \<noteq> []"
    by (cases "token = []") (simp_all add: protect_def)
  from assms t ne have nb: "BlacklistedToken_findOne w token = None"
    by (cases "BlacklistedToken_findOne w token") (simp_all add: protect_def)
  from assms t ne nb obtain decoded where
    v: "jwt_verify env now token (jwt_secret env) = Inr decoded"
    by (cases "jwt_verify env now token (jwt_secret env)") (simp_all add: protect_def)
  from assms t ne nb v obtain user where u: "User_findById w (c_id decoded) = Some user"
    by (cases "User_findById w (c_id decoded)")
       (simp_all add: protect_def createAuditLog_audited)
  from assms t ne nb v u have a: "ustatus user = Active"
    by (cases "ustatus user = Active") (simp_all add: protect_def createAuditLog_audited)
  from assms t ne nb v u a have l: "\<not> isLocked user now"
    by (cases "isLocked user now") (simp_all add: protect_def createAuditLog_audited)
  from assms t ne nb v u a l
  have "req' = req\<lparr>req_user := Some user, req_token := Some token\<rparr>" and "w' = w"
    by (simp_all add: protect_def)
  with t v u show thesis
    by (rule that)
qed

text \<open>
  C1, as the code has it. Whenever \<open>protect\<close> lets a request through, the principal
  attached to it is the one the credential store returns at that moment for the
  identifier in the token, with its roles populated, and \<open>requirePermission\<close>,
  \<open>requireAnyPermission\<close> and \<open>requireAllPermissions\<close> decide on \<open>allPermissions\<close> of
  that principal; the permission list inside the token is not read.
\<close>

theorem permission_predicates_read_the_live_roles:
  assumes "protect env now w req = (Next req', w', tr)"
  shows "\<exists>token decoded user.
           bearer_token req = Some token
           \<and> jwt_verify env now token (jwt_secret env) = Inr decoded
           \<and> User_findById w (c_id decoded) = Some user
           \<and> req_user req' = Some user \<and> w' = w
           \<and> fst (requirePermission p w' req') =
               (if p \<in> set (allPermissions user) then Next req'
                else Respond (forbidden (One p)))
           \<and> fst (requireAnyPermission ps w' req') =
               (if list_ex (\<lambda>q. q \<in> set (allPermissions user)) ps then Next req'
                else Respond (forbidden (Many ps)))
           \<and> fst (requireAllPermissions ps w' req') =
               (if list_all (\<lambda>q. q \<in> set (allPermissions user)) ps then Next req'
                else Respond (forbidden (Many ps)))"
proof -
  from assms obtain token decoded user where
    t: "bearer_token req = Some token"
    and v: "jwt_verify env now token (jwt_secret env) = Inr decoded"
    and u: "User_findById w (c_id decoded) = Some user"
    and r: "req' = req\<lparr>req_user := Some user, req_token := Some token\<rparr>" and w: "w' = w"
    by (rule protect_next)
  have ru: "req_user req' = Some user"
    by (simp add: r)
  have one: "fst (requirePermission p w' req') =
               (if p \<in> set (allPermissions user) then Next req'
                else Respond (forbidden (One p)))"
    by (simp add: requirePermission_def ru hasPermission_def createAuditLog_audited)
  have any: "fst (requireAnyPermission ps w' req') =
               (if list_ex (\<lambda>q. q \<in> set (allPermissions user)) ps then Next req'
                else Respond (forbidden (Many ps)))"
    by (simp add: requireAnyPermission_def ru hasAnyPermission_def createAuditLog_audited)
  have all: "fst (requireAllPermissions ps w' req') =
               (if list_all (\<lambda>q. q \<in> set (allPermissions user)) ps then Next req'
                else Respond (forbidden (Many ps)))"
    by (simp add: requireAllPermissions_def ru hasAllPermissions_def createAuditLog_audited)
  from t v u ru w one any all show ?thesis by blast
qed

text \<open>The role of user 8 is changed from \<open>editor\<close> to \<open>auditor\<close> by the administrator.\<close>

definition admin_request :: request where
  "admin_request = request0\<lparr>req_user := User_findById world0 6\<rparr>"

definition world1 :: world where
  "world1 = snd (assignRole world0 admin_request 8 3)"

definition user8_after :: user where
  "user8_after = \<lparr>uid = 8, email = ''e@example.com'', password = ''$pw'',
     role = Some \<lparr>role_id = 3, role_name = ''auditor'',
                   role_permissions = [\<lparr>perm_id = 1, perm_name = ''content:read''\<rparr>,
                                       \<lparr>perm_id = 5, perm_name = ''audit:read''\<rparr>],
                   role_level = 30, role_isSystemRole = False\<rparr>,
     additionalRoles = [], ustatus = Active,
     lastLogin = None, loginAttempts = 0, lockUntil = None\<rparr>"

definition gate_request :: request where
  "gate_request = (with_bearer request0 token8)\<lparr>req_user := Some user8_after,
                                                req_token := Some token8\<rparr>"

lemma role_change:
  "fst (assignRole world0 admin_request 8 3)
     = Respond (APIResponse_success
                  (UserDoc (Some (mk_user 8 ''e@example.com'' 3 [])))
                  (Text ''Role assigned successfully''))
   \<and> world1 = world0\<lparr>Users := [mk_user 6 ''root@example.com'' 4 [],
                               mk_user 7 ''p@example.com'' 1 [2],
                               mk_user 8 ''e@example.com'' 3 [],
                               mk_user 9 ''a@example.com'' 1 [4],
                               mk_user 10 ''b@example.com'' 1 [3]]\<rparr>"
proof -
  obtain a where a: "req_user admin_request = Some a"
    by (simp add: admin_request_def store_eval world0_def)
  obtain r3 where r3: "Role_findById world0 3 = Some r3"
    by (simp add: store_eval world0_def)
  have r2: "role user8 = Some role_editor" "uid user8 = 8"
    by (simp_all add: user8_def)
  have invalid: "audited w (audit_entry u ''user_role_change'' res det rq st sev) = w"
    for w u res det rq st sev
    by (simp add: audited_def audit_entry_def AuditLog_validate_def AuditLog_actions_def)
  have "assignRole world0 admin_request 8 3 =
     (Respond (APIResponse_success
        (UserDoc (find (\<lambda>d. ud_id d = 8)
                    (Users (User_updateOne world0 8 (\<lambda>d. d\<lparr>ud_role := 3\<rparr>)))))
        (Text ''Role assigned successfully'')),
      User_updateOne world0 8 (\<lambda>d. d\<lparr>ud_role := 3\<rparr>))"
    by (simp add: assignRole_def user8_stored r3 a r2 createAuditLog_audited invalid Let_def)
  moreover have "User_updateOne world0 8 (\<lambda>d. d\<lparr>ud_role := 3\<rparr>)
      = world0\<lparr>Users := [mk_user 6 ''root@example.com'' 4 [],
                               mk_user 7 ''p@example.com'' 1 [2],
                               mk_user 8 ''e@example.com'' 3 [],
                               mk_user 9 ''a@example.com'' 1 [4],
                               mk_user 10 ''b@example.com'' 1 [3]]\<rparr>"
    by (simp add: User_updateOne_def world0_def mk_user_def)
  ultimately show ?thesis
    by (simp add: world1_def mk_user_def)
qed

lemma user8_after_stored: "User_findById world1 8 = Some user8_after"
  by (simp add: role_change store_eval world0_def List.map_filter_def user8_after_def)

lemma user8_after_permissions: "allPermissions user8_after = [''content:read'', ''audit:read'']"
  by (simp add: allPermissions_user user8_after_def add_role_permissions_def set_add_def)

lemma old_token_passes_gate:
  "protect env0 6000 world1 (with_bearer request0 token8)
       = (Next gate_request, world1,
          [BlacklistLookup token8, JwtVerify token8, UserLookup 8])"
proof -
  have ne: "token8 \<noteq> []" by (simp add: token8_def)
  have nb: "BlacklistedToken_findOne world1 token8 = None"
    by (simp add: role_change BlacklistedToken_findOne_def world0_def)
  have id8: "c_id claims8 = 8"
    by (simp add: claims8_def)
  have st: "ustatus user8_after = Active" "\<not> isLocked user8_after 6000"
    by (simp_all add: user8_after_def isLocked_def)
  show ?thesis
    by (simp add: protect_def token8_bearer ne nb token8_verified id8 user8_after_stored st
          gate_request_def)
qed

text \<open>
  C1 as stated fails: user 8 gets a token as \<open>editor\<close>, then becomes \<open>auditor\<close>. With
  the old token, \<open>user:read\<close> (in the token's list) is refused and \<open>audit:read\<close> (not in
  it) is granted.
\<close>

theorem frozen_snapshot_counterexample:
  "generateAuthToken env0 5000 user8 = Inr token8
   \<and> User_findById world0 8 = Some user8
   \<and> jwt_verify env0 6000 token8 (jwt_secret env0) = Inr claims8
   \<and> c_permissions claims8
       = [''content:create'', ''content:read'', ''content:update'', ''user:read'']
   \<and> world1 = snd (assignRole world0 admin_request 8 3)
   \<and> protect env0 6000 world1 (with_bearer request0 token8)
       = (Next gate_request, world1,
          [BlacklistLookup token8, JwtVerify token8, UserLookup 8])
   \<and> fst (requirePermission ''user:read'' world1 gate_request)
       = Respond (forbidden (One ''user:read''))
   \<and> fst (requirePermission ''audit:read'' world1 gate_request) = Next gate_request"
proof -
  note gate = old_token_passes_gate
  have ru: "req_user gate_request = Some user8_after"
    by (simp add: gate_request_def)
  have denied: "fst (requirePermission ''user:read'' world1 gate_request)
       = Respond (forbidden (One ''user:read''))"
    by (simp add: requirePermission_def ru hasPermission_def user8_after_permissions
          createAuditLog_audited)
  have granted: "fst (requirePermission ''audit:read'' world1 gate_request) = Next gate_request"
    by (simp add: requirePermission_def ru hasPermission_def user8_after_permissions)
  have snap: "c_permissions claims8
       = [''content:create'', ''content:read'', ''content:update'', ''user:read'']"
    by (simp add: claims8_def)
  from token8_issued user8_stored token8_verified snap gate denied granted
  show ?thesis by (simp add: world1_def)
qed

theorem permission_predicates_read_the_live_roles_witness:
  "protect env0 6000 world1 (with_bearer request0 token8)
       = (Next gate_request, world1,
          [BlacklistLookup token8, JwtVerify token8, UserLookup 8])
   \<and> User_findById world1 8 = Some user8_after
   \<and> fst (requirePermission ''audit:read'' world1 gate_request) = Next gate_request
   \<and> fst (requireAnyPermission [''user:read'', ''content:read''] world1 gate_request)
       = Next gate_request
   \<and> fst (requireAllPermissions [''user:read'', ''content:read''] world1 gate_request)
       = Respond (forbidden (Many [''user:read'', ''content:read'']))"
proof -
  note gate = old_token_passes_gate
  have id8: "c_id claims8 = 8"
    by (simp add: claims8_def)
  from permission_predicates_read_the_live_roles
         [OF gate, of "''audit:read''" "[''user:read'', ''content:read'']"]
  obtain user where u: "User_findById world1 8 = Some user"
    and one: "fst (requirePermission ''audit:read'' world1 gate_request) =
               (if ''audit:read'' \<in> set (allPermissions user) then Next gate_request
                else Respond (forbidden (One ''audit:read'')))"
    and any: "fst (requireAnyPermission [''user:read'', ''content:read''] world1 gate_request) =
               (if list_ex (\<lambda>q. q \<in> set (allPermissions user)) [''user:read'', ''content:read'']
                then Next gate_request
                else Respond (forbidden (Many [''user:read'', ''content:read''])))"
    and all: "fst (requireAllPermissions [''user:read'', ''content:read''] world1 gate_request) =
               (if list_all (\<lambda>q. q \<in> set (allPermissions user)) [''user:read'', ''content:read'']
                then Next gate_request
                else Respond (forbidden (Many [''user:read'', ''content:read''])))"
    by (auto simp: token8_bearer token8_verified id8)
  from u have user: "user = user8_after"
    by (simp add: user8_after_stored)
  from gate one any all show ?thesis
    by (simp add: user user8_after_stored user8_after_permissions)
qed

end
